theory Spec2Isabelle
  imports Complex_Main "HOL-Library.AList"
begin

section \<open>JavaScript values\<close>

text \<open>
  The library is TypeScript. Its payloads, events and custom claims are open JavaScript
  objects, so values are modelled by one datatype. An object is the list of its own
  enumerable properties in enumeration order, with pairwise distinct names; a
  string is a \<open>string\<close>, one \<open>char\<close> standing for one code unit.
  The reordering of array-index names inside an object is not modelled.
\<close>

text \<open>
  A number is a rational, \<open>NaN\<close> or an infinity (rounding and the sign of zero are
  not modelled). \<open>0\<close> and \<open>NaN\<close> are the falsy numbers.
\<close>

datatype number = Finite rat | NaN | PosInfinity | NegInfinity

fun truthy_num :: "number \<Rightarrow> bool" where
  "truthy_num (Finite r) = (r \<noteq> 0)"
| "truthy_num NaN = False"
| "truthy_num PosInfinity = True"
| "truthy_num NegInfinity = True"

datatype jsval =
    Undefined
  | Null
  | Bool bool
  | Num number
  | Str string
  | Arr "jsval list"
  | Obj "(string \<times> jsval) list"

type_synonym props = "(string \<times> jsval) list"

text \<open>ToBoolean: what \<open>!v\<close>, \<open>v || w\<close> and \<open>if (v)\<close> test.\<close>

fun truthy :: "jsval \<Rightarrow> bool" where
  "truthy Undefined = False"
| "truthy Null = False"
| "truthy (Bool b) = b"
| "truthy (Num n) = truthy_num n"
| "truthy (Str s) = (s \<noteq> [])"
| "truthy (Arr _) = True"
| "truthy (Obj _) = True"

fun typeof :: "jsval \<Rightarrow> string" where
  "typeof Undefined = ''undefined''"
| "typeof Null = ''object''"
| "typeof (Bool _) = ''boolean''"
| "typeof (Num _) = ''number''"
| "typeof (Str _) = ''string''"
| "typeof (Arr _) = ''object''"
| "typeof (Obj _) = ''object''"

text \<open>Reading the property \<open>o.k\<close>: \<open>undefined\<close> when \<open>o\<close> has no such property.\<close>

definition get :: "props \<Rightarrow> string \<Rightarrow> jsval" where
  "get ps k = (case map_of ps k of None \<Rightarrow> Undefined | Some v \<Rightarrow> v)"

text \<open>
  The assignment \<open>o[k] = v\<close> is \<open>AList.update k v\<close>: an existing property keeps its
  place, a new one goes last. (Not so for the name \<open>__proto__\<close>, which an assignment
  hands to the setter of \<open>Object.prototype\<close>: see \<open>withClaim\<close>.) The spread
  \<open>{...a, ...b}\<close> defines the properties of \<open>b\<close>, in their order, on a copy of
  \<open>a\<close>.
\<close>

definition spread :: "props \<Rightarrow> props \<Rightarrow> props" where
  "spread a b = fold (\<lambda>(k, v). AList.update k v) b a"

text \<open>A value thrown by \<open>throw\<close>: an \<open>Error\<close> instance with its message, or anything else.\<close>

datatype thrown = Error string | Thrown jsval

text \<open>\<open>e instanceof Error ? e.message : other\<close>\<close>

fun message_or :: "string \<Rightarrow> thrown \<Rightarrow> string" where
  "message_or other (Error m) = m"
| "message_or other (Thrown v) = other"

section \<open>Types of the library (src/types/secevent.ts)\<close>

text \<open>\<open>string | string[]\<close>, the type of an audience and of an expected issuer.\<close>

datatype str_or_arr = One string | Many "string list"

fun truthy_sa :: "str_or_arr \<Rightarrow> bool" where
  "truthy_sa (One s) = (s \<noteq> [])"
| "truthy_sa (Many _) = True"

fun js_of_sa :: "str_or_arr \<Rightarrow> jsval" where
  "js_of_sa (One s) = Str s"
| "js_of_sa (Many ss) = Arr (map Str ss)"

record SigningKey =
  kid :: "string option"
  alg :: string
  key :: jsval

text \<open>
  An \<open>IdGenerator\<close> is an object with one method \<open>generate(): string\<close>. It is
  represented by the string its next call returns; the classes of src/id/generator.ts
  and the state they keep are outside the builder.
\<close>

record IdGenerator =
  generate :: string

section \<open>The builder (builder.ts)\<close>

record BuilderOptions =
  defaultIssuer :: "string option"
  defaultAudience :: "str_or_arr option"
  idGenerator :: "IdGenerator option"
  optSigningKey :: "SigningKey option"

text \<open>
  The fields of the class. \<open>additionalClaims\<close> is an object that \<open>withClaim\<close>
  mutates; besides its own properties the model keeps whether its prototype has been set
  to \<open>null\<close>, which decides what an assignment to \<open>__proto__\<close> does.
\<close>

record SecEventBuilder =
  options :: BuilderOptions
  issuer :: "string option"
  audience :: "str_or_arr option"
  jti :: "string option"
  iat :: "number option"
  txn :: "string option"
  events :: props
  additionalClaims :: props
  claims_proto_null :: bool
  signingKey :: "SigningKey option"

text \<open>The constructor: the fields start unset, then each configured default is copied.\<close>

definition new_SecEventBuilder :: "BuilderOptions \<Rightarrow> SecEventBuilder" where
  "new_SecEventBuilder opts =
     \<lparr> options = opts,
       issuer = (case defaultIssuer opts of Some i \<Rightarrow> Some i | None \<Rightarrow> None),
       audience = (case defaultAudience opts of Some a \<Rightarrow> Some a | None \<Rightarrow> None),
       jti = None, iat = None, txn = None,
       events = [], additionalClaims = [], claims_proto_null = False,
       signingKey = (case optSigningKey opts of Some k \<Rightarrow> Some k | None \<Rightarrow> None) \<rparr>"

definition withIssuer :: "string \<Rightarrow> SecEventBuilder \<Rightarrow> SecEventBuilder" where
  "withIssuer i b = b\<lparr>issuer := Some i\<rparr>"

definition withAudience :: "str_or_arr \<Rightarrow> SecEventBuilder \<Rightarrow> SecEventBuilder" where
  "withAudience a b = b\<lparr>audience := Some a\<rparr>"

definition withJti :: "string \<Rightarrow> SecEventBuilder \<Rightarrow> SecEventBuilder" where
  "withJti j b = b\<lparr>jti := Some j\<rparr>"

definition withIat :: "number \<Rightarrow> SecEventBuilder \<Rightarrow> SecEventBuilder" where
  "withIat t b = b\<lparr>iat := Some t\<rparr>"

definition withTxn :: "string \<Rightarrow> SecEventBuilder \<Rightarrow> SecEventBuilder" where
  "withTxn t b = b\<lparr>txn := Some t\<rparr>"

definition withEvent :: "props \<Rightarrow> SecEventBuilder \<Rightarrow> SecEventBuilder" where
  "withEvent event b = b\<lparr>events := spread (events b) event\<rparr>"

definition withEvents :: "props list \<Rightarrow> SecEventBuilder \<Rightarrow> SecEventBuilder" where
  "withEvents evs b = fold (\<lambda>event b'. b'\<lparr>events := spread (events b') event\<rparr>) evs b"

text \<open>
  \<open>this.additionalClaims[key] = value\<close>. For the key \<open>__proto__\<close> the assignment
  goes to the setter that the object inherits from \<open>Object.prototype\<close>: it makes
  \<open>null\<close> or an object the new prototype, ignores any other value, and gives the
  object no property of its own. Once the prototype is \<open>null\<close> there is no setter
  and \<open>__proto__\<close> is a key like any other. A prototype is copied by no spread, so
  nothing else the builder does sees it.
\<close>

definition withClaim :: "string \<Rightarrow> jsval \<Rightarrow> SecEventBuilder \<Rightarrow> SecEventBuilder" where
  "withClaim k v b =
     (if k = ''__proto__'' \<and> \<not> claims_proto_null b
      then (if v = Null then b\<lparr>claims_proto_null := True\<rparr> else b)
      else b\<lparr>additionalClaims := AList.update k v (additionalClaims b)\<rparr>)"

text \<open>\<open>this.additionalClaims = {...this.additionalClaims, ...claims}\<close>: a new object.\<close>

definition withClaims :: "props \<Rightarrow> SecEventBuilder \<Rightarrow> SecEventBuilder" where
  "withClaims claims b =
     b\<lparr>additionalClaims := spread (additionalClaims b) claims, claims_proto_null := False\<rparr>"

definition withSigningKey :: "SigningKey \<Rightarrow> SecEventBuilder \<Rightarrow> SecEventBuilder" where
  "withSigningKey k b = b\<lparr>signingKey := Some k\<rparr>"

text \<open>
  What \<open>buildPayload\<close> reads from outside the builder: the module's
  \<open>defaultIdGenerator\<close> and the clock \<open>Date.now()\<close>, in milliseconds.
\<close>

record env =
  defaultIdGenerator :: IdGenerator
  date_now :: int

text \<open>\<open>this.options.idGenerator || defaultIdGenerator\<close>\<close>

definition idGenerator_of :: "env \<Rightarrow> SecEventBuilder \<Rightarrow> IdGenerator" where
  "idGenerator_of e b =
     (case idGenerator (options b) of Some g \<Rightarrow> g | None \<Rightarrow> defaultIdGenerator e)"

text \<open>\<open>this.jti || idGenerator.generate()\<close>\<close>

definition payload_jti :: "env \<Rightarrow> SecEventBuilder \<Rightarrow> string" where
  "payload_jti e b =
     (case jti b of
        Some s \<Rightarrow> if s \<noteq> [] then s else generate (idGenerator_of e b)
      | None \<Rightarrow> generate (idGenerator_of e b))"

text \<open>\<open>this.iat || Math.floor(Date.now() / 1000)\<close>\<close>

definition payload_iat :: "env \<Rightarrow> SecEventBuilder \<Rightarrow> number" where
  "payload_iat e b =
     (case iat b of
        Some n \<Rightarrow> if truthy_num n then n else Finite (of_int (date_now e div 1000))
      | None \<Rightarrow> Finite (of_int (date_now e div 1000)))"

text \<open>A number that is an integer (\<open>Number.isInteger\<close>).\<close>

fun is_integer :: "number \<Rightarrow> bool" where
  "is_integer (Finite r) = (of_int \<lfloor>r\<rfloor> = r)"
| "is_integer _ = False"

definition buildPayload :: "env \<Rightarrow> SecEventBuilder \<Rightarrow> thrown + props" where
  "buildPayload e b =
     (case issuer b of
        None \<Rightarrow> Inl (Error ''Issuer is required'')
      | Some i \<Rightarrow>
          if i = [] then Inl (Error ''Issuer is required'')
          else if length (map fst (events b)) = 0
          then Inl (Error ''At least one event is required'')
          else
            let p0 = spread [(''iss'', Str i), (''jti'', Str (payload_jti e b)),
                             (''iat'', Num (payload_iat e b)), (''events'', Obj (events b))]
                       (additionalClaims b);
                p1 = (case audience b of
                        Some a \<Rightarrow> if truthy_sa a then AList.update ''aud'' (js_of_sa a) p0 else p0
                      | None \<Rightarrow> p0);
                p2 = (case txn b of
                        Some x \<Rightarrow> if x \<noteq> [] then AList.update ''txn'' (Str x) p1 else p1
                      | None \<Rightarrow> p1)
            in Inr p2)"

definition reset :: "SecEventBuilder \<Rightarrow> SecEventBuilder" where
  "reset b =
     b\<lparr> issuer := (case defaultIssuer (options b) of Some i \<Rightarrow> Some i | None \<Rightarrow> None),
        audience := (case defaultAudience (options b) of Some a \<Rightarrow> Some a | None \<Rightarrow> None),
        jti := None, iat := None, txn := None,
        events := [], additionalClaims := [], claims_proto_null := False,
        signingKey := (case optSigningKey (options b) of Some k \<Rightarrow> Some k | None \<Rightarrow> None) \<rparr>"

text \<open>A call of one of the builder's mutators, and a chain of such calls.\<close>

datatype mutator =
    WithIssuer string
  | WithAudience str_or_arr
  | WithJti string
  | WithIat number
  | WithTxn string
  | WithEvent props
  | WithEvents "props list"
  | WithClaim string jsval
  | WithClaims props
  | WithSigningKey SigningKey
  | Reset

fun call :: "mutator \<Rightarrow> SecEventBuilder \<Rightarrow> SecEventBuilder" where
  "call (WithIssuer i) b = withIssuer i b"
| "call (WithAudience a) b = withAudience a b"
| "call (WithJti j) b = withJti j b"
| "call (WithIat t) b = withIat t b"
| "call (WithTxn t) b = withTxn t b"
| "call (WithEvent ev) b = withEvent ev b"
| "call (WithEvents evs) b = withEvents evs b"
| "call (WithClaim k v) b = withClaim k v b"
| "call (WithClaims cs) b = withClaims cs b"
| "call (WithSigningKey k) b = withSigningKey k b"
| "call Reset b = reset b"

definition chain :: "mutator list \<Rightarrow> SecEventBuilder \<Rightarrow> SecEventBuilder" where
  "chain ms b = fold call ms b"

section \<open>Event types and factory helpers (events.ts)\<close>

definition SESSION_REVOKED :: string where
  "SESSION_REVOKED = ''https://schemas.openid.net/secevent/caep/event-type/session-revoked''"

definition TOKEN_CLAIMS_CHANGE :: string where
  "TOKEN_CLAIMS_CHANGE =
     ''https://schemas.openid.net/secevent/caep/event-type/token-claims-change''"

definition CREDENTIAL_CHANGE :: string where
  "CREDENTIAL_CHANGE = ''https://schemas.openid.net/secevent/caep/event-type/credential-change''"

definition ASSURANCE_LEVEL_CHANGE :: string where
  "ASSURANCE_LEVEL_CHANGE =
     ''https://schemas.openid.net/secevent/caep/event-type/assurance-level-change''"

definition DEVICE_COMPLIANCE_CHANGE :: string where
  "DEVICE_COMPLIANCE_CHANGE =
     ''https://schemas.openid.net/secevent/caep/event-type/device-compliance-change''"

definition STREAM_UPDATED :: string where
  "STREAM_UPDATED = ''https://schemas.openid.net/secevent/ssf/event-type/stream-updated''"

definition VERIFICATION :: string where
  "VERIFICATION = ''https://schemas.openid.net/secevent/ssf/event-type/verification''"

text \<open>An optional argument that the caller omits is \<open>undefined\<close> in the callee.\<close>

fun opt_str :: "string option \<Rightarrow> jsval" where
  "opt_str None = Undefined"
| "opt_str (Some s) = Str s"

fun opt_num :: "number option \<Rightarrow> jsval" where
  "opt_num None = Undefined"
| "opt_num (Some n) = Num n"

fun opt_obj :: "props option \<Rightarrow> jsval" where
  "opt_obj None = Undefined"
| "opt_obj (Some ps) = Obj ps"

text \<open>Spreading \<open>undefined\<close> adds no property.\<close>

fun opt_props :: "props option \<Rightarrow> props" where
  "opt_props None = []"
| "opt_props (Some ps) = ps"

definition sessionRevoked :: "jsval \<Rightarrow> number \<Rightarrow> string option \<Rightarrow> props" where
  "sessionRevoked subject timestamp reason =
     [(SESSION_REVOKED,
       Obj [(''subject'', subject), (''event_timestamp'', Num timestamp),
            (''reason'', opt_str reason)])]"

definition tokenClaimsChange :: "jsval \<Rightarrow> number \<Rightarrow> props option \<Rightarrow> props" where
  "tokenClaimsChange subject timestamp claims =
     [(TOKEN_CLAIMS_CHANGE,
       Obj [(''subject'', subject), (''event_timestamp'', Num timestamp),
            (''claims'', opt_obj claims)])]"

definition credentialChange :: "jsval \<Rightarrow> number \<Rightarrow> props option \<Rightarrow> props" where
  "credentialChange subject timestamp opts =
     [(CREDENTIAL_CHANGE,
       Obj (spread [(''subject'', subject), (''event_timestamp'', Num timestamp)]
              (opt_props opts)))]"

definition assuranceLevelChange :: "jsval \<Rightarrow> number \<Rightarrow> props option \<Rightarrow> props" where
  "assuranceLevelChange subject timestamp opts =
     [(ASSURANCE_LEVEL_CHANGE,
       Obj (spread [(''subject'', subject), (''event_timestamp'', Num timestamp)]
              (opt_props opts)))]"

definition deviceComplianceChange :: "jsval \<Rightarrow> number \<Rightarrow> props option \<Rightarrow> props" where
  "deviceComplianceChange subject timestamp opts =
     [(DEVICE_COMPLIANCE_CHANGE,
       Obj (spread [(''subject'', subject), (''event_timestamp'', Num timestamp)]
              (opt_props opts)))]"

definition streamUpdated :: "number option \<Rightarrow> props" where
  "streamUpdated effectiveTime =
     [(STREAM_UPDATED, Obj [(''effective_time'', opt_num effectiveTime)])]"

definition verification :: "string option \<Rightarrow> props" where
  "verification state = [(VERIFICATION, Obj [(''state'', opt_str state)])]"

section \<open>The parser (parser.ts)\<close>

subsection \<open>What the parser calls from outside the repository\<close>

text \<open>
  The platform's \<open>new URL(s)\<close>, which throws on a string that is no absolute URL, and
  of the result the two properties the code can observe.
\<close>

record URL =
  href :: string
  protocol :: string

text \<open>\<open>createRemoteJWKSet(url)\<close> returns a key resolver; all that is known of it is its URL.\<close>

datatype RemoteJWKSet = RemoteJWKSet URL

text \<open>The second argument of jose's \<open>jwtVerify\<close>: key material, or a key resolver.\<close>

datatype keysrc = KeyMaterial jsval | RemoteKeys RemoteJWKSet

text \<open>The template string \<open>${n}s\<close> of a number \<open>n\<close> of seconds.\<close>

datatype duration = Seconds number

record JWTVerifyOptions =
  jwt_issuer :: "str_or_arr option"
  jwt_audience :: "str_or_arr option"
  jwt_clockTolerance :: "number option"
  jwt_currentDate :: "int option"
  jwt_maxTokenAge :: "duration option"

text \<open>
  The external collaborators, as functions that return either the thrown value or the
  result: \<open>new URL\<close>, jose's \<open>decodeJwt\<close> and \<open>jwtVerify\<close> (of whose result only
  \<open>payload\<close> is read). Nothing is assumed of them.
\<close>

record lib =
  new_URL :: "string \<Rightarrow> thrown + URL"
  decodeJwt :: "string \<Rightarrow> thrown + props"
  jwtVerify :: "string \<Rightarrow> keysrc \<Rightarrow> JWTVerifyOptions \<Rightarrow> thrown + props"

subsection \<open>Options and results\<close>

text \<open>
  An optional property of an options object that is spread: it is absent, or present
  with the value \<open>undefined\<close>, or present with a value. Reading it gives
  \<open>undefined\<close> in the first two cases.
\<close>

datatype 'a field = Absent | Unset | Given 'a

fun read :: "'a field \<Rightarrow> 'a option" where
  "read (Given x) = Some x"
| "read _ = None"

record ValidationOptions =
  opt_issuer :: "str_or_arr field"
  opt_audience :: "str_or_arr field"
  clockTolerance :: "number field"
  currentDate :: "int field"
  requiredClaims :: "string list field"
  maxTokenAge :: "number field"

record ValidationResult =
  valid :: bool
  payload :: "props option"
  error :: "string option"
  errors :: "string list option"

record ParserOptions =
  jwksUrl :: "string option"
  verificationKeys :: "SigningKey list option"
  defaultValidationOptions :: "ValidationOptions option"

record SecEventParser =
  parser_options :: ParserOptions
  jwks :: "RemoteJWKSet option"

text \<open>The constructor; \<open>new URL\<close> may throw.\<close>

definition new_SecEventParser :: "lib \<Rightarrow> ParserOptions \<Rightarrow> thrown + SecEventParser" where
  "new_SecEventParser L opts =
     (case jwksUrl opts of
        None \<Rightarrow> Inr \<lparr> parser_options = opts, jwks = None \<rparr>
      | Some u \<Rightarrow>
          if u = [] then Inr \<lparr> parser_options = opts, jwks = None \<rparr>
          else (case new_URL L u of
                  Inl e \<Rightarrow> Inl e
                | Inr url \<Rightarrow> Inr \<lparr> parser_options = opts, jwks = Some (RemoteJWKSet url) \<rparr>))"

text \<open>The argument \<open>verificationKey?: SigningKey | SigningKey[]\<close> of \<open>verify\<close>.\<close>

datatype key_arg = SingleKey SigningKey | KeyList "SigningKey list"

subsection \<open>Helpers of the language\<close>

text \<open>The decimal numeral of an array index.\<close>

fun show_nat :: "nat \<Rightarrow> string" where
  "show_nat n =
     (if n < 10 then [''0123456789'' ! n]
      else show_nat (n div 10) @ [''0123456789'' ! (n mod 10)])"

text \<open>
  \<open>Object.keys(v)\<close>. Its only caller has tested \<open>v\<close> for truthiness, so the
  \<open>TypeError\<close> on \<open>undefined\<close> and \<open>null\<close> cannot arise there.
\<close>

fun Object_keys :: "jsval \<Rightarrow> string list" where
  "Object_keys (Obj ps) = map fst ps"
| "Object_keys (Arr xs) = map show_nat [0..<length xs]"
| "Object_keys (Str s) = map show_nat [0..<length s]"
| "Object_keys _ = []"

text \<open>
  \<open>k in o\<close> for an object \<open>o\<close> made by \<open>JSON.parse\<close>: an own property, or one
  inherited from \<open>Object.prototype\<close>.
\<close>

definition Object_prototype :: "string list" where
  "Object_prototype =
     [''constructor'', ''__defineGetter__'', ''__defineSetter__'', ''hasOwnProperty'',
      ''__lookupGetter__'', ''__lookupSetter__'', ''isPrototypeOf'',
      ''propertyIsEnumerable'', ''toString'', ''valueOf'', ''__proto__'',
      ''toLocaleString'']"

definition js_in :: "string \<Rightarrow> props \<Rightarrow> bool" where
  "js_in k ps = (k \<in> set (map fst ps) \<or> k \<in> set Object_prototype)"

text \<open>\<open>xs.join(sep)\<close>\<close>

fun join :: "string \<Rightarrow> string list \<Rightarrow> string" where
  "join sep [] = []"
| "join sep [x] = x"
| "join sep (x # y # ys) = x @ sep @ join sep (y # ys)"

fun truthy_thrown :: "thrown \<Rightarrow> bool" where
  "truthy_thrown (Error _) = True"
| "truthy_thrown (Thrown v) = truthy v"

subsection \<open>Decoding and structural validation\<close>

definition validatePayloadStructure :: "props \<Rightarrow> thrown + unit" where
  "validatePayloadStructure p =
     (if \<not> truthy (get p ''events'') \<or> typeof (get p ''events'') \<noteq> ''object''
      then Inl (Error ''Missing or invalid events claim'')
      else if \<not> truthy (get p ''iss'') \<or> typeof (get p ''iss'') \<noteq> ''string''
      then Inl (Error ''Missing or invalid issuer claim'')
      else if \<not> truthy (get p ''jti'') \<or> typeof (get p ''jti'') \<noteq> ''string''
      then Inl (Error ''Missing or invalid jti claim'')
      else if typeof (get p ''iat'') \<noteq> ''number''
      then Inl (Error ''Missing or invalid iat claim'')
      else Inr ())"

definition decode :: "lib \<Rightarrow> string \<Rightarrow> thrown + props" where
  "decode L jwt =
     (case decodeJwt L jwt of
        Inl e \<Rightarrow> Inl e
      | Inr p \<Rightarrow> (case validatePayloadStructure p of Inl e \<Rightarrow> Inl e | Inr _ \<Rightarrow> Inr p))"

subsection \<open>Semantic validation\<close>

definition isValidEventUri :: "lib \<Rightarrow> string \<Rightarrow> bool" where
  "isValidEventUri L uri =
     (case new_URL L uri of
        Inl _ \<Rightarrow> False
      | Inr url \<Rightarrow> protocol url = ''https:'' \<or> protocol url = ''http:'')"

definition validateSecEvent :: "lib \<Rightarrow> props \<Rightarrow> ValidationOptions \<Rightarrow> string list" where
  "validateSecEvent L p opts =
     (let errors1 = (case validatePayloadStructure p of
                       Inl e \<Rightarrow> [message_or ''Invalid payload structure'' e]
                     | Inr _ \<Rightarrow> []);
          errors2 = (case read (requiredClaims opts) of
                       None \<Rightarrow> []
                     | Some claims \<Rightarrow>
                         map (\<lambda>claim. ''Missing required claim: '' @ claim)
                           (filter (\<lambda>claim. \<not> js_in claim p) claims));
          errors3 = (if truthy (get p ''events'')
                     then (if length (Object_keys (get p ''events'')) = 0
                           then [''No events present in events claim''] else [])
                          @ map (\<lambda>eventUri. ''Invalid event URI format: '' @ eventUri)
                              (filter (\<lambda>eventUri. \<not> isValidEventUri L eventUri)
                                 (Object_keys (get p ''events'')))
                     else [])
      in errors1 @ errors2 @ errors3)"

subsection \<open>verify\<close>

text \<open>
  \<open>{...defaults, ...options}\<close>, field by field; either object may be missing. A
  property that \<open>options\<close> has, be it with the value \<open>undefined\<close>, replaces the
  one of \<open>defaults\<close>.
\<close>

definition no_options :: ValidationOptions where
  "no_options = \<lparr> opt_issuer = Absent, opt_audience = Absent, clockTolerance = Absent,
                  currentDate = Absent, requiredClaims = Absent, maxTokenAge = Absent \<rparr>"

fun over :: "'a field \<Rightarrow> 'a field \<Rightarrow> 'a field" where
  "over Absent d = d"
| "over x _ = x"

definition spreadOptions ::
  "ValidationOptions option \<Rightarrow> ValidationOptions option \<Rightarrow> ValidationOptions" where
  "spreadOptions defaults opts =
     (let d = (case defaults of None \<Rightarrow> no_options | Some x \<Rightarrow> x);
          c = (case opts of None \<Rightarrow> no_options | Some x \<Rightarrow> x)
      in \<lparr> opt_issuer = over (opt_issuer c) (opt_issuer d),
           opt_audience = over (opt_audience c) (opt_audience d),
           clockTolerance = over (clockTolerance c) (clockTolerance d),
           currentDate = over (currentDate c) (currentDate d),
           requiredClaims = over (requiredClaims c) (requiredClaims d),
           maxTokenAge = over (maxTokenAge c) (maxTokenAge d) \<rparr>)"

text \<open>The constraints handed to \<open>jwtVerify\<close>: each option is copied when it is truthy.\<close>

definition jwtOptions_of :: "ValidationOptions \<Rightarrow> JWTVerifyOptions" where
  "jwtOptions_of m =
     \<lparr> jwt_issuer = (case read (opt_issuer m) of
                       Some i \<Rightarrow> if truthy_sa i then Some i else None | None \<Rightarrow> None),
       jwt_audience = (case read (opt_audience m) of
                         Some a \<Rightarrow> if truthy_sa a then Some a else None | None \<Rightarrow> None),
       jwt_clockTolerance = (case read (clockTolerance m) of
                               Some c \<Rightarrow> if truthy_num c then Some c else None
                             | None \<Rightarrow> None),
       jwt_currentDate = (case read (currentDate m) of Some d \<Rightarrow> Some d | None \<Rightarrow> None),
       jwt_maxTokenAge = (case read (maxTokenAge m) of
                            Some a \<Rightarrow> if truthy_num a then Some (Seconds a) else None
                          | None \<Rightarrow> None) \<rparr>"

text \<open>\<open>const keys = verificationKey ? (Array.isArray(...) ? ... : [...]) : this.options.verificationKeys\<close>\<close>

definition keys_of :: "SecEventParser \<Rightarrow> key_arg option \<Rightarrow> SigningKey list option" where
  "keys_of P verificationKey =
     (case verificationKey of
        Some (KeyList ks) \<Rightarrow> Some ks
      | Some (SingleKey k) \<Rightarrow> Some [k]
      | None \<Rightarrow> verificationKeys (parser_options P))"

text \<open>
  The loop \<open>for (const key of keys)\<close>. Its state is \<open>payload\<close>, \<open>lastError\<close> and, to
  make the calls of \<open>jwtVerify\<close> observable, the list of key sources tried so far.
\<close>

fun tryKeys ::
  "(keysrc \<Rightarrow> thrown + props) \<Rightarrow> SigningKey list \<Rightarrow> thrown option \<Rightarrow> keysrc list \<Rightarrow>
     props option \<times> thrown option \<times> keysrc list" where
  "tryKeys v [] lastError tried = (None, lastError, tried)"
| "tryKeys v (k # ks) lastError tried =
     (case v (KeyMaterial (key k)) of
        Inr p \<Rightarrow> (Some p, lastError, tried @ [KeyMaterial (key k)])
      | Inl e \<Rightarrow> tryKeys v ks (Some e) (tried @ [KeyMaterial (key k)]))"

text \<open>
  Lines 70 to 125 of \<open>verify\<close>: the choice of the key source and the calls of
  \<open>jwtVerify\<close>. The result is the payload or the thrown value, and the key sources
  \<open>jwtVerify\<close> was called with, in order.
\<close>

definition verifySignature ::
  "lib \<Rightarrow> SecEventParser \<Rightarrow> string \<Rightarrow> key_arg option \<Rightarrow> ValidationOptions \<Rightarrow>
     (thrown + props) \<times> keysrc list" where
  "verifySignature L P jwt verificationKey mergedOptions =
     (let keys = keys_of P verificationKey in
      if keys = None \<and> jwks P = None
      then (Inl (Error ''No verification key or JWKS URL provided''), [])
      else
        let jwtOptions = jwtOptions_of mergedOptions in
        case jwks P of
          Some j \<Rightarrow> (jwtVerify L jwt (RemoteKeys j) jwtOptions, [RemoteKeys j])
        | None \<Rightarrow>
            (case keys of
               Some ks \<Rightarrow>
                 (case tryKeys (\<lambda>k. jwtVerify L jwt k jwtOptions) ks None [] of
                    (Some p, _, tried) \<Rightarrow> (Inr p, tried)
                  | (None, lastError, tried) \<Rightarrow>
                      (Inl (case lastError of
                              Some e \<Rightarrow>
                                if truthy_thrown e then e
                                else Error ''Verification failed with all provided keys''
                            | None \<Rightarrow> Error ''Verification failed with all provided keys''),
                       tried))
             | None \<Rightarrow> (Inl (Error ''No verification method available''), [])))"

text \<open>\<open>const mergedOptions = {...this.options.defaultValidationOptions, ...options}\<close>\<close>

definition mergedOptions_of ::
  "SecEventParser \<Rightarrow> ValidationOptions option \<Rightarrow> ValidationOptions" where
  "mergedOptions_of P opts = spreadOptions (defaultValidationOptions (parser_options P)) opts"

text \<open>The \<open>try\<close> block of \<open>verify\<close>: \<open>Inl\<close> is a value thrown inside it.\<close>

definition verify_try ::
  "lib \<Rightarrow> SecEventParser \<Rightarrow> string \<Rightarrow> key_arg option \<Rightarrow> ValidationOptions option \<Rightarrow>
     thrown + ValidationResult" where
  "verify_try L P jwt verificationKey opts =
     (let mergedOptions = mergedOptions_of P opts in
      case fst (verifySignature L P jwt verificationKey mergedOptions) of
        Inl e \<Rightarrow> Inl e
      | Inr p \<Rightarrow>
          let validationErrors = validateSecEvent L p mergedOptions in
          if length validationErrors > 0
          then Inr \<lparr> valid = False, payload = None,
                    error = Some (join ''; '' validationErrors),
                    errors = Some validationErrors \<rparr>
          else Inr \<lparr> valid = True, payload = Some p, error = None, errors = None \<rparr>)"

text \<open>
  \<open>verify\<close>: the \<open>try\<close> block and its \<open>catch\<close>. \<open>Inl\<close> would be a value that
  \<open>verify\<close> itself throws (a rejected promise).
\<close>

definition verify ::
  "lib \<Rightarrow> SecEventParser \<Rightarrow> string \<Rightarrow> key_arg option \<Rightarrow> ValidationOptions option \<Rightarrow>
     thrown + ValidationResult" where
  "verify L P jwt verificationKey opts =
     (case verify_try L P jwt verificationKey opts of
        Inr r \<Rightarrow> Inr r
      | Inl e \<Rightarrow> Inr \<lparr> valid = False, payload = None,
                       error = Some (message_or ''Unknown error'' e), errors = None \<rparr>)"

text \<open>The key sources that \<open>verify\<close> hands to \<open>jwtVerify\<close>, in the order of the calls.\<close>

definition verify_calls ::
  "lib \<Rightarrow> SecEventParser \<Rightarrow> string \<Rightarrow> key_arg option \<Rightarrow> ValidationOptions option \<Rightarrow>
     keysrc list" where
  "verify_calls L P jwt verificationKey opts =
     snd (verifySignature L P jwt verificationKey (mergedOptions_of P opts))"

section \<open>Vocabulary of the properties\<close>

text \<open>A non-null object: a mapping or an array.\<close>

fun is_object :: "jsval \<Rightarrow> bool" where
  "is_object (Obj _) = True"
| "is_object (Arr _) = True"
| "is_object _ = False"

fun is_nonempty_string :: "jsval \<Rightarrow> bool" where
  "is_nonempty_string (Str s) = (s \<noteq> [])"
| "is_nonempty_string _ = False"

fun is_number :: "jsval \<Rightarrow> bool" where
  "is_number (Num _) = True"
| "is_number _ = False"

text \<open>
  A syntactically valid absolute URI with scheme http or https: a string that
  \<open>new URL\<close> parses, to a URL whose protocol is \<open>http:\<close> or \<open>https:\<close>.
\<close>

definition http_or_https_uri :: "lib \<Rightarrow> string \<Rightarrow> bool" where
  "http_or_https_uri L s =
     (case new_URL L s of
        Inr u \<Rightarrow> protocol u \<in> {''http:'', ''https:''}
      | Inl e \<Rightarrow> False)"

text \<open>An error message of the form \<open>Invalid event URI format: <key>\<close>.\<close>

definition is_uri_error :: "string \<Rightarrow> bool" where
  "is_uri_error e =
     (take (length ''Invalid event URI format: '') e = ''Invalid event URI format: '')"

text \<open>The call \<open>jwtVerify(jwt, k.key, jwtOptions)\<close> of \<open>verify\<close> throws.\<close>

definition key_fails ::
  "lib \<Rightarrow> SecEventParser \<Rightarrow> string \<Rightarrow> ValidationOptions option \<Rightarrow> SigningKey \<Rightarrow> bool" where
  "key_fails L P jwt opts k =
     isl (jwtVerify L jwt (KeyMaterial (key k)) (jwtOptions_of (mergedOptions_of P opts)))"

section \<open>Example values\<close>

text \<open>Concrete inputs on which the theorems below are instantiated.\<close>

definition env0 :: env where
  "env0 = \<lparr> defaultIdGenerator = \<lparr> generate = ''id-1'' \<rparr>, date_now = 1700000000123 \<rparr>"

definition no_builder_options :: BuilderOptions where
  "no_builder_options =
     \<lparr> defaultIssuer = None, defaultAudience = None, idGenerator = None,
       optSigningKey = None \<rparr>"

text \<open>
  A stand-in for \<open>new URL\<close>: it accepts what starts with \<open>https://\<close>,
  \<open>http://\<close> or \<open>urn:\<close>, and throws on anything else.
\<close>

definition new_URL0 :: "string \<Rightarrow> thrown + URL" where
  "new_URL0 s =
     (if take 8 s = ''https://'' then Inr \<lparr> href = s, protocol = ''https:'' \<rparr>
      else if take 7 s = ''http://'' then Inr \<lparr> href = s, protocol = ''http:'' \<rparr>
      else if take 4 s = ''urn:'' then Inr \<lparr> href = s, protocol = ''urn:'' \<rparr>
      else Inl (Error ''Invalid URL''))"

definition payload0 :: props where
  "payload0 =
     [(''iss'', Str ''https://issuer.example''), (''jti'', Str ''id-1''),
      (''iat'', Num (Finite 1700000000)),
      (''events'', Obj [(VERIFICATION, Obj [(''state'', Str ''s-1'')])])]"

text \<open>
  A payload whose events claim is an array, and one whose events have a key that is no
  URL, an https key, an http key and a key of another scheme.
\<close>

definition payload_array :: props where
  "payload_array =
     [(''iss'', Str ''https://issuer.example''), (''jti'', Str ''id-1''),
      (''iat'', Num (Finite 1700000000)), (''events'', Arr [])]"

definition payload_bad_uris :: props where
  "payload_bad_uris =
     [(''iss'', Str ''https://issuer.example''), (''jti'', Str ''id-1''),
      (''iat'', Num (Finite 1700000000)),
      (''events'', Obj [(''not-a-url'', Obj []), (VERIFICATION, Obj []),
                        (''http://example.com/event'', Obj []),
                        (''urn:example:event'', Obj [])])]"

text \<open>
  A stand-in for jose: the token \<open>t0\<close> carries \<open>payload0\<close>, \<open>t1\<close> carries
  \<open>payload_array\<close>, \<open>t2\<close> carries \<open>payload_bad_uris\<close>; each is signed with the
  key \<open>secret\<close>, which no remote key set holds.
\<close>

definition decodeJwt0 :: "string \<Rightarrow> thrown + props" where
  "decodeJwt0 jwt =
     (if jwt = ''t0'' then Inr payload0
      else if jwt = ''t1'' then Inr payload_array
      else if jwt = ''t2'' then Inr payload_bad_uris
      else Inl (Error ''Invalid JWT''))"

definition jwtVerify0 :: "string \<Rightarrow> keysrc \<Rightarrow> JWTVerifyOptions \<Rightarrow> thrown + props" where
  "jwtVerify0 jwt src jwtOptions =
     (case src of
        RemoteKeys _ \<Rightarrow> Inl (Error ''no applicable key found in the JSON Web Key Set'')
      | KeyMaterial k \<Rightarrow>
          if k = Str ''secret'' then decodeJwt0 jwt
          else Inl (Error ''signature verification failed''))"

definition lib0 :: lib where
  "lib0 = \<lparr> new_URL = new_URL0, decodeJwt = decodeJwt0, jwtVerify = jwtVerify0 \<rparr>"

text \<open>A verifier that throws an \<open>Error\<close> with the empty message.\<close>

definition jwtVerify_silent :: "string \<Rightarrow> keysrc \<Rightarrow> JWTVerifyOptions \<Rightarrow> thrown + props" where
  "jwtVerify_silent jwt src jwtOptions = Inl (Error [])"

definition lib_silent :: lib where
  "lib_silent = \<lparr> new_URL = new_URL0, decodeJwt = decodeJwt0, jwtVerify = jwtVerify_silent \<rparr>"

definition key_secret :: SigningKey where
  "key_secret = \<lparr> kid = None, alg = ''HS256'', key = Str ''secret'' \<rparr>"

definition key_wrong1 :: SigningKey where
  "key_wrong1 = \<lparr> kid = None, alg = ''HS256'', key = Str ''wrong-1'' \<rparr>"

definition key_wrong2 :: SigningKey where
  "key_wrong2 = \<lparr> kid = None, alg = ''HS256'', key = Str ''wrong-2'' \<rparr>"

definition no_parser_options :: ParserOptions where
  "no_parser_options =
     \<lparr> jwksUrl = None, verificationKeys = None, defaultValidationOptions = None \<rparr>"

definition parser0 :: SecEventParser where
  "parser0 = \<lparr> parser_options = no_parser_options, jwks = None \<rparr>"

text \<open>The parser constructed with \<open>{jwksUrl: 'https://idp.example/jwks.json'}\<close>.\<close>

definition jwks0 :: RemoteJWKSet where
  "jwks0 = RemoteJWKSet \<lparr> href = ''https://idp.example/jwks.json'', protocol = ''https:'' \<rparr>"

definition parser_jwks :: SecEventParser where
  "parser_jwks =
     \<lparr> parser_options = no_parser_options \<lparr> jwksUrl := Some ''https://idp.example/jwks.json'' \<rparr>,
       jwks = Some jwks0 \<rparr>"

section \<open>Properties of property lists\<close>

lemma map_of_spread: "map_of (spread a b) = map_of a ++ map_of (rev b)"
  unfolding spread_def
  by (induction b arbitrary: a) (auto simp: update_conv' map_add_upd_left)

lemma map_of_rev_distinct: "distinct (map fst b) \<Longrightarrow> map_of (rev b) = map_of b"
proof (induction b)
  case Nil
  then show ?case by simp
next
  case (Cons x xs)
  obtain k v where x: "x = (k, v)" by (cases x)
  from Cons.prems x have k: "k \<notin> fst ` set xs" and d: "distinct (map fst xs)" by auto
  from k have "map_of xs k = None" by (simp add: map_of_eq_None_iff)
  then have "[k \<mapsto> v] ++ map_of xs = (map_of xs)(k \<mapsto> v)"
    by (intro ext) (auto simp: map_add_def split: option.split)
  with Cons.IH [OF d] x show ?case by simp
qed

lemma get_spread:
  "distinct (map fst b) \<Longrightarrow>
   get (spread a b) k = (case map_of b k of Some v \<Rightarrow> v | None \<Rightarrow> get a k)"
  by (simp add: get_def map_of_spread map_of_rev_distinct map_add_def split: option.split)

lemma get_update: "get (AList.update k v ps) k' = (if k' = k then v else get ps k')"
  by (simp add: get_def update_conv')

lemma distinct_spread: "distinct (map fst a) \<Longrightarrow> distinct (map fst (spread a b))"
  unfolding spread_def
  by (induction b arbitrary: a) (auto simp: distinct_update)

lemma get_spread_absent: "k \<notin> fst ` set b \<Longrightarrow> get (spread a b) k = get a k"
proof -
  assume "k \<notin> fst ` set b"
  then have "k \<notin> fst ` set (rev b)" by simp
  then have "map_of (rev b) k = None" by (simp add: map_of_eq_None_iff)
  then show ?thesis by (simp add: get_def map_of_spread map_add_def)
qed

section \<open>The builder: reset\<close>

lemma withEvents_options: "options (withEvents evs b) = options b"
  unfolding withEvents_def by (induction evs arbitrary: b) simp_all

lemma call_options: "options (call m b) = options b"
  by (cases m)
     (simp_all add: withIssuer_def withAudience_def withJti_def withIat_def withTxn_def
        withEvent_def withEvents_options withClaim_def withClaims_def withSigningKey_def
        reset_def)

lemma chain_options: "options (chain ms b) = options b"
  unfolding chain_def by (induction ms arbitrary: b) (simp_all add: call_options)

lemma reset_eq_new: "reset b = new_SecEventBuilder (options b)"
  by (simp add: reset_def new_SecEventBuilder_def)

lemma new_options: "options (new_SecEventBuilder opts) = opts"
  by (simp add: new_SecEventBuilder_def)

text \<open>
  Claim C8. In every builder state, \<open>reset\<close> puts issuer, audience and signing key back
  to the values of the options the builder was constructed with (unset where the option
  is not configured), unsets jti, iat and txn, and empties the events and the custom
  claims. Whatever chain of mutators ran since construction, the builder after
  \<open>reset\<close> is the freshly constructed one.
\<close>

theorem reset_restores_configuration:
  "issuer (reset b) = defaultIssuer (options b) \<and>
   audience (reset b) = defaultAudience (options b) \<and>
   signingKey (reset b) = optSigningKey (options b) \<and>
   jti (reset b) = None \<and> iat (reset b) = None \<and> txn (reset b) = None \<and>
   events (reset b) = [] \<and> additionalClaims (reset b) = [] \<and>
   reset (chain ms (new_SecEventBuilder opts)) = new_SecEventBuilder opts"
proof -
  have fields:
    "issuer (reset b) = defaultIssuer (options b)"
    "audience (reset b) = defaultAudience (options b)"
    "signingKey (reset b) = optSigningKey (options b)"
    by (simp_all add: reset_def split: option.split)
  have cleared:
    "jti (reset b) = None" "iat (reset b) = None" "txn (reset b) = None"
    "events (reset b) = []" "additionalClaims (reset b) = []"
    by (simp_all add: reset_def)
  have "reset (chain ms (new_SecEventBuilder opts)) =
        new_SecEventBuilder (options (chain ms (new_SecEventBuilder opts)))"
    by (rule reset_eq_new)
  then have "reset (chain ms (new_SecEventBuilder opts)) = new_SecEventBuilder opts"
    by (simp add: chain_options new_options)
  with fields cleared show ?thesis by simp
qed

theorem reset_restores_configuration_witness:
  "issuer (reset (chain [WithIssuer ''https://y.example'', WithTxn ''t-1'',
                         WithClaim ''k'' (Bool True)]
             (new_SecEventBuilder \<lparr> defaultIssuer = Some ''https://x.example'',
                defaultAudience = None, idGenerator = None, optSigningKey = None \<rparr>)))
     = Some ''https://x.example'' \<and>
   issuer (reset (chain [WithIssuer ''https://y.example'']
             (new_SecEventBuilder \<lparr> defaultIssuer = None,
                defaultAudience = None, idGenerator = None, optSigningKey = None \<rparr>)))
     = None"
  using reset_restores_configuration
          [of "new_SecEventBuilder \<lparr> defaultIssuer = None, defaultAudience = None,
                 idGenerator = None, optSigningKey = None \<rparr>"
              "[WithIssuer ''https://y.example'', WithTxn ''t-1'', WithClaim ''k'' (Bool True)]"
              "\<lparr> defaultIssuer = Some ''https://x.example'',
                 defaultAudience = None, idGenerator = None, optSigningKey = None \<rparr>"]
        reset_restores_configuration
          [of "new_SecEventBuilder \<lparr> defaultIssuer = None, defaultAudience = None,
                 idGenerator = None, optSigningKey = None \<rparr>"
              "[WithIssuer ''https://y.example'']"
              "\<lparr> defaultIssuer = None,
                 defaultAudience = None, idGenerator = None, optSigningKey = None \<rparr>"]
  by (simp add: new_SecEventBuilder_def)

section \<open>The builder: buildPayload\<close>

text \<open>
  The custom claims of a builder are an object: whatever mutators are called on a new
  builder, the names in \<open>additionalClaims\<close> are pairwise distinct.
\<close>

lemma withEvents_claims: "additionalClaims (withEvents evs b) = additionalClaims b"
  unfolding withEvents_def by (induction evs arbitrary: b) simp_all

lemma call_claims_distinct:
  "distinct (map fst (additionalClaims b)) \<Longrightarrow>
   distinct (map fst (additionalClaims (call m b)))"
  by (cases m)
     (simp_all add: withIssuer_def withAudience_def withJti_def withIat_def withTxn_def
        withEvent_def withEvents_claims withClaim_def withClaims_def withSigningKey_def
        reset_def distinct_update distinct_spread)

lemma chain_claims_distinct:
  "distinct (map fst (additionalClaims b)) \<Longrightarrow>
   distinct (map fst (additionalClaims (chain ms b)))"
  unfolding chain_def by (induction ms arbitrary: b) (simp_all add: call_claims_distinct)

lemma reachable_claims_distinct:
  "distinct (map fst (additionalClaims (chain ms (new_SecEventBuilder opts))))"
  by (rule chain_claims_distinct) (simp add: new_SecEventBuilder_def)

lemma buildPayload_get:
  assumes "issuer b = Some i" and "i \<noteq> []" and "events b \<noteq> []"
  shows "\<exists>p. buildPayload e b = Inr p \<and>
     (\<forall>k. get p k =
        (if k = ''txn'' \<and> (\<exists>x. txn b = Some x \<and> x \<noteq> []) then Str (the (txn b))
         else if k = ''aud'' \<and> (\<exists>a. audience b = Some a \<and> truthy_sa a)
         then js_of_sa (the (audience b))
         else get (spread [(''iss'', Str i), (''jti'', Str (payload_jti e b)),
                             (''iat'', Num (payload_iat e b)), (''events'', Obj (events b))]
                       (additionalClaims b)) k))"
  using assms
  by (auto simp add: buildPayload_def Let_def get_update split: option.split)

lemma get_literal:
  "get [(''iss'', a), (''jti'', b), (''iat'', c), (''events'', d)] ''iss'' = a"
  "get [(''iss'', a), (''jti'', b), (''iat'', c), (''events'', d)] ''jti'' = b"
  "get [(''iss'', a), (''jti'', b), (''iat'', c), (''events'', d)] ''iat'' = c"
  "get [(''iss'', a), (''jti'', b), (''iat'', c), (''events'', d)] ''events'' = d"
  by (simp_all add: get_def)

text \<open>
  Claim C1, as amended. For a builder with a non-empty issuer, a non-empty events mapping
  and custom claims (an object, so with distinct names), \<open>buildPayload\<close> returns a
  payload in which each of iss, jti, iat and events holds the custom claim of that name
  when there is one, and the builder's reserved value otherwise; aud and txn hold the
  values set on the builder whenever these are set and truthy, whatever the custom claims.
\<close>

theorem buildPayload_reserved_fields:
  assumes "issuer b = Some i" and "i \<noteq> []" and "events b \<noteq> []"
    and "distinct (map fst (additionalClaims b))"
  shows "\<exists>p. buildPayload e b = Inr p \<and>
     get p ''iss'' = (case map_of (additionalClaims b) ''iss'' of
                        Some v \<Rightarrow> v | None \<Rightarrow> Str i) \<and>
     get p ''jti'' = (case map_of (additionalClaims b) ''jti'' of
                        Some v \<Rightarrow> v | None \<Rightarrow> Str (payload_jti e b)) \<and>
     get p ''iat'' = (case map_of (additionalClaims b) ''iat'' of
                        Some v \<Rightarrow> v | None \<Rightarrow> Num (payload_iat e b)) \<and>
     get p ''events'' = (case map_of (additionalClaims b) ''events'' of
                        Some v \<Rightarrow> v | None \<Rightarrow> Obj (events b)) \<and>
     (\<forall>a. audience b = Some a \<longrightarrow> truthy_sa a \<longrightarrow> get p ''aud'' = js_of_sa a) \<and>
     (\<forall>x. txn b = Some x \<longrightarrow> x \<noteq> [] \<longrightarrow> get p ''txn'' = Str x)"
proof -
  from buildPayload_get [OF assms(1-3)] obtain p where
    built: "buildPayload e b = Inr p" and
    at: "\<And>k. get p k =
        (if k = ''txn'' \<and> (\<exists>x. txn b = Some x \<and> x \<noteq> []) then Str (the (txn b))
         else if k = ''aud'' \<and> (\<exists>a. audience b = Some a \<and> truthy_sa a)
         then js_of_sa (the (audience b))
         else get (spread [(''iss'', Str i), (''jti'', Str (payload_jti e b)),
                             (''iat'', Num (payload_iat e b)), (''events'', Obj (events b))]
                       (additionalClaims b)) k)"
    by blast
  have iss: "get p ''iss'' = (case map_of (additionalClaims b) ''iss'' of
                        Some v \<Rightarrow> v | None \<Rightarrow> Str i)"
    by (simp add: at get_spread [OF assms(4)] get_literal split: option.split)
  have jti: "get p ''jti'' = (case map_of (additionalClaims b) ''jti'' of
                        Some v \<Rightarrow> v | None \<Rightarrow> Str (payload_jti e b))"
    by (simp add: at get_spread [OF assms(4)] get_literal split: option.split)
  have iat: "get p ''iat'' = (case map_of (additionalClaims b) ''iat'' of
                        Some v \<Rightarrow> v | None \<Rightarrow> Num (payload_iat e b))"
    by (simp add: at get_spread [OF assms(4)] get_literal split: option.split)
  have events: "get p ''events'' = (case map_of (additionalClaims b) ''events'' of
                        Some v \<Rightarrow> v | None \<Rightarrow> Obj (events b))"
    by (simp add: at get_spread [OF assms(4)] get_literal split: option.split)
  have aud: "\<forall>a. audience b = Some a \<longrightarrow> truthy_sa a \<longrightarrow> get p ''aud'' = js_of_sa a"
    by (simp add: at)
  have txn: "\<forall>x. txn b = Some x \<longrightarrow> x \<noteq> [] \<longrightarrow> get p ''txn'' = Str x"
    by (simp add: at)
  from built iss jti iat events aud txn show ?thesis by blast
qed

theorem buildPayload_reserved_fields_witness:
  "buildPayload env0
     (chain [WithIssuer ''https://issuer.example'', WithAudience (One ''https://app.example''),
              WithEvent (verification None), WithTxn ''txn-7'',
              WithClaims [(''aud'', Str ''https://other.example''), (''custom'', Bool True)]]
         (new_SecEventBuilder no_builder_options))
   = Inr [(''iss'', Str ''https://issuer.example''), (''jti'', Str ''id-1''),
      (''iat'', Num (Finite 1700000000)),
      (''events'', Obj [(VERIFICATION, Obj [(''state'', Undefined)])]),
      (''aud'', Str ''https://app.example''), (''custom'', Bool True),
      (''txn'', Str ''txn-7'')]"
  using buildPayload_reserved_fields
    [of "chain [WithIssuer ''https://issuer.example'', WithAudience (One ''https://app.example''),
              WithEvent (verification None), WithTxn ''txn-7'',
              WithClaims [(''aud'', Str ''https://other.example''), (''custom'', Bool True)]]
         (new_SecEventBuilder no_builder_options)" "''https://issuer.example''" env0]
  by (simp add: chain_def withIssuer_def withAudience_def withEvent_def withTxn_def
        withClaims_def new_SecEventBuilder_def no_builder_options_def spread_def
        verification_def buildPayload_def payload_jti_def payload_iat_def idGenerator_of_def
        env0_def)

text \<open>
  Claim C1 as stated fails: the custom claim \<open>iss\<close> replaces the configured issuer.
\<close>

theorem custom_claim_overrides_issuer:
  "buildPayload env0
     (chain [WithIssuer ''https://issuer.example'', WithEvent (verification None),
             WithClaim ''iss'' (Str ''https://other.example'')]
         (new_SecEventBuilder no_builder_options))
   = Inr [(''iss'', Str ''https://other.example''), (''jti'', Str ''id-1''),
      (''iat'', Num (Finite 1700000000)),
      (''events'', Obj [(VERIFICATION, Obj [(''state'', Undefined)])])]"
  by (simp add: chain_def withIssuer_def withEvent_def withClaim_def
        new_SecEventBuilder_def no_builder_options_def spread_def
        verification_def buildPayload_def payload_jti_def payload_iat_def idGenerator_of_def
        env0_def)

lemma buildPayload_issuer_error:
  "buildPayload e b = Inl (Error ''Issuer is required'') \<longleftrightarrow>
     issuer b = None \<or> issuer b = Some []"
  by (simp add: buildPayload_def Let_def split: option.split)

lemma buildPayload_no_events:
  "issuer b = Some i \<Longrightarrow> i \<noteq> [] \<Longrightarrow> events b = [] \<Longrightarrow>
   buildPayload e b = Inl (Error ''At least one event is required'')"
  by (simp add: buildPayload_def)

lemma truthy_num_iff: "truthy_num n \<longleftrightarrow> n \<noteq> Finite 0 \<and> n \<noteq> NaN"
  by (cases n) simp_all

text \<open>
  Claim C5, as amended. \<open>buildPayload\<close> fails with the missing-issuer error exactly
  when the issuer is unset or the empty string; with a non-empty issuer and an empty
  events mapping it fails with the no-events error; otherwise it returns a payload in
  which, for each of jti, iat and events that no custom claim names, jti is the value set
  on the builder when that is non-empty and else the next value of the configured ID
  generator (of the default one when none is configured), iat is the value set when that
  is neither zero nor \<open>NaN\<close> and else the clock in whole seconds, and events is the
  accumulated mapping. The jti is non-empty whenever the value of the generator in use
  is, and the iat is an integer whenever the value set on the builder, if it is one that
  is kept, is an integer.
\<close>

theorem buildPayload_outcome:
  "(buildPayload e b = Inl (Error ''Issuer is required'') \<longleftrightarrow>
      issuer b = None \<or> issuer b = Some []) \<and>
   (\<forall>i. issuer b = Some i \<and> i \<noteq> [] \<and> events b = [] \<longrightarrow>
      buildPayload e b = Inl (Error ''At least one event is required'')) \<and>
   (\<forall>i. issuer b = Some i \<and> i \<noteq> [] \<and> events b \<noteq> [] \<longrightarrow>
      (\<exists>p. buildPayload e b = Inr p \<and>
         (''jti'' \<notin> fst ` set (additionalClaims b) \<longrightarrow>
            get p ''jti'' = Str (payload_jti e b)) \<and>
         (''iat'' \<notin> fst ` set (additionalClaims b) \<longrightarrow>
            get p ''iat'' = Num (payload_iat e b)) \<and>
         (''events'' \<notin> fst ` set (additionalClaims b) \<longrightarrow>
            get p ''events'' = Obj (events b)))) \<and>
   (\<forall>s. jti b = Some s \<and> s \<noteq> [] \<longrightarrow> payload_jti e b = s) \<and>
   (\<forall>g. (jti b = None \<or> jti b = Some []) \<and> idGenerator (options b) = Some g \<longrightarrow>
      payload_jti e b = generate g) \<and>
   ((jti b = None \<or> jti b = Some []) \<and> idGenerator (options b) = None \<longrightarrow>
      payload_jti e b = generate (defaultIdGenerator e)) \<and>
   ((\<forall>g. idGenerator (options b) = Some g \<longrightarrow> generate g \<noteq> []) \<and>
    (idGenerator (options b) = None \<longrightarrow> generate (defaultIdGenerator e) \<noteq> []) \<longrightarrow>
      payload_jti e b \<noteq> []) \<and>
   (\<forall>n. iat b = Some n \<and> n \<noteq> Finite 0 \<and> n \<noteq> NaN \<longrightarrow> payload_iat e b = n) \<and>
   (iat b = None \<or> iat b = Some (Finite 0) \<or> iat b = Some NaN \<longrightarrow>
      payload_iat e b = Finite (of_int (date_now e div 1000))) \<and>
   ((\<forall>n. iat b = Some n \<and> n \<noteq> Finite 0 \<and> n \<noteq> NaN \<longrightarrow> is_integer n) \<longrightarrow>
      is_integer (payload_iat e b))"
proof -
  have success: "\<exists>p. buildPayload e b = Inr p \<and>
         (''jti'' \<notin> fst ` set (additionalClaims b) \<longrightarrow>
            get p ''jti'' = Str (payload_jti e b)) \<and>
         (''iat'' \<notin> fst ` set (additionalClaims b) \<longrightarrow>
            get p ''iat'' = Num (payload_iat e b)) \<and>
         (''events'' \<notin> fst ` set (additionalClaims b) \<longrightarrow>
            get p ''events'' = Obj (events b))"
    if "issuer b = Some i" "i \<noteq> []" "events b \<noteq> []" for i
  proof -
    from buildPayload_get [OF that] obtain p where
      built: "buildPayload e b = Inr p" and
      at: "\<And>k. get p k =
        (if k = ''txn'' \<and> (\<exists>x. txn b = Some x \<and> x \<noteq> []) then Str (the (txn b))
         else if k = ''aud'' \<and> (\<exists>a. audience b = Some a \<and> truthy_sa a)
         then js_of_sa (the (audience b))
         else get (spread [(''iss'', Str i), (''jti'', Str (payload_jti e b)),
                             (''iat'', Num (payload_iat e b)), (''events'', Obj (events b))]
                       (additionalClaims b)) k)"
      by blast
    have "get p ''jti'' = Str (payload_jti e b)"
      if "''jti'' \<notin> fst ` set (additionalClaims b)"
      by (simp add: at get_spread_absent [OF that] get_literal)
    moreover have "get p ''iat'' = Num (payload_iat e b)"
      if "''iat'' \<notin> fst ` set (additionalClaims b)"
      by (simp add: at get_spread_absent [OF that] get_literal)
    moreover have "get p ''events'' = Obj (events b)"
      if "''events'' \<notin> fst ` set (additionalClaims b)"
      by (simp add: at get_spread_absent [OF that] get_literal)
    ultimately show ?thesis using built by blast
  qed
  have jti1: "\<forall>s. jti b = Some s \<and> s \<noteq> [] \<longrightarrow> payload_jti e b = s"
    by (simp add: payload_jti_def)
  have jti2: "\<forall>g. (jti b = None \<or> jti b = Some []) \<and> idGenerator (options b) = Some g \<longrightarrow>
      payload_jti e b = generate g"
    by (auto simp add: payload_jti_def idGenerator_of_def)
  have jti3: "(jti b = None \<or> jti b = Some []) \<and> idGenerator (options b) = None \<longrightarrow>
      payload_jti e b = generate (defaultIdGenerator e)"
    by (auto simp add: payload_jti_def idGenerator_of_def)
  have jti4: "(\<forall>g. idGenerator (options b) = Some g \<longrightarrow> generate g \<noteq> []) \<and>
    (idGenerator (options b) = None \<longrightarrow> generate (defaultIdGenerator e) \<noteq> []) \<longrightarrow>
      payload_jti e b \<noteq> []"
    by (simp add: payload_jti_def idGenerator_of_def split: option.split)
  have iat1: "\<forall>n. iat b = Some n \<and> n \<noteq> Finite 0 \<and> n \<noteq> NaN \<longrightarrow> payload_iat e b = n"
    by (simp add: payload_iat_def truthy_num_iff)
  have iat2: "iat b = None \<or> iat b = Some (Finite 0) \<or> iat b = Some NaN \<longrightarrow>
      payload_iat e b = Finite (of_int (date_now e div 1000))"
    by (auto simp add: payload_iat_def)
  have iat3: "(\<forall>n. iat b = Some n \<and> n \<noteq> Finite 0 \<and> n \<noteq> NaN \<longrightarrow> is_integer n) \<longrightarrow>
      is_integer (payload_iat e b)"
    by (simp add: payload_iat_def truthy_num_iff split: option.split)
  show ?thesis
    using buildPayload_issuer_error [of e b] buildPayload_no_events [of b _ e]
      success jti1 jti2 jti3 jti4 iat1 iat2 iat3
    by blast
qed

theorem buildPayload_outcome_witness:
  "buildPayload env0
     (chain [WithIssuer ''https://issuer.example'', WithEvent (verification None),
             WithJti ''j-1'', WithIat (Finite 5)]
        (new_SecEventBuilder no_builder_options))
   = Inr [(''iss'', Str ''https://issuer.example''), (''jti'', Str ''j-1''),
          (''iat'', Num (Finite 5)),
          (''events'', Obj [(VERIFICATION, Obj [(''state'', Undefined)])])] \<and>
   buildPayload env0
     (chain [WithIssuer ''https://issuer.example'', WithEvent (verification None)]
        (new_SecEventBuilder
           (no_builder_options \<lparr> idGenerator := Some \<lparr> generate = ''gen-7'' \<rparr> \<rparr>)))
   = Inr [(''iss'', Str ''https://issuer.example''), (''jti'', Str ''gen-7''),
          (''iat'', Num (Finite 1700000000)),
          (''events'', Obj [(VERIFICATION, Obj [(''state'', Undefined)])])] \<and>
   buildPayload env0
     (chain [WithIssuer ''https://issuer.example'', WithEvent (verification None)]
        (new_SecEventBuilder no_builder_options))
   = Inr [(''iss'', Str ''https://issuer.example''), (''jti'', Str ''id-1''),
          (''iat'', Num (Finite 1700000000)),
          (''events'', Obj [(VERIFICATION, Obj [(''state'', Undefined)])])] \<and>
   buildPayload env0
     (chain [WithEvent (verification None)] (new_SecEventBuilder no_builder_options))
     = Inl (Error ''Issuer is required'') \<and>
   buildPayload env0
     (chain [WithIssuer ''https://issuer.example''] (new_SecEventBuilder no_builder_options))
     = Inl (Error ''At least one event is required'')"
  using buildPayload_outcome
    [of env0 "chain [WithIssuer ''https://issuer.example'', WithEvent (verification None),
                  WithJti ''j-1'', WithIat (Finite 5)]
             (new_SecEventBuilder no_builder_options)"]
    buildPayload_outcome
    [of env0 "chain [WithIssuer ''https://issuer.example'', WithEvent (verification None)]
        (new_SecEventBuilder
           (no_builder_options \<lparr> idGenerator := Some \<lparr> generate = ''gen-7'' \<rparr> \<rparr>))"]
    buildPayload_outcome
    [of env0 "chain [WithEvent (verification None)] (new_SecEventBuilder no_builder_options)"]
    buildPayload_outcome
    [of env0 "chain [WithIssuer ''https://issuer.example'']
                (new_SecEventBuilder no_builder_options)"]
  by (simp add: chain_def withIssuer_def withEvent_def withJti_def withIat_def
        new_SecEventBuilder_def no_builder_options_def spread_def
        verification_def buildPayload_def payload_jti_def payload_iat_def idGenerator_of_def
        env0_def)

text \<open>
  Claim C5 as stated fails: a fractional iat set on the builder is kept; an iat of zero
  or \<open>NaN\<close> and an empty jti set on the builder are replaced, and the generator's
  empty value is taken as it is; an empty issuer set on the builder is the
  missing-issuer error; a custom claim named jti replaces the jti.
\<close>

theorem buildPayload_not_as_claimed:
  "buildPayload env0
     (chain [WithIssuer ''https://issuer.example'', WithEvent (verification None),
             WithIat (Finite (3 / 2))]
        (new_SecEventBuilder no_builder_options))
   = Inr [(''iss'', Str ''https://issuer.example''), (''jti'', Str ''id-1''),
          (''iat'', Num (Finite (3 / 2))),
          (''events'', Obj [(VERIFICATION, Obj [(''state'', Undefined)])])] \<and>
   \<not> is_integer (Finite (3 / 2)) \<and>
   buildPayload env0
     (chain [WithIssuer ''https://issuer.example'', WithEvent (verification None),
             WithJti [], WithIat (Finite 0)]
        (new_SecEventBuilder (no_builder_options
           \<lparr> idGenerator := Some \<lparr> generate = [] \<rparr> \<rparr>)))
   = Inr [(''iss'', Str ''https://issuer.example''), (''jti'', Str []),
          (''iat'', Num (Finite 1700000000)),
          (''events'', Obj [(VERIFICATION, Obj [(''state'', Undefined)])])] \<and>
   buildPayload env0
     (chain [WithIssuer ''https://issuer.example'', WithEvent (verification None),
             WithIat NaN]
        (new_SecEventBuilder no_builder_options))
   = Inr [(''iss'', Str ''https://issuer.example''), (''jti'', Str ''id-1''),
          (''iat'', Num (Finite 1700000000)),
          (''events'', Obj [(VERIFICATION, Obj [(''state'', Undefined)])])] \<and>
   buildPayload env0
     (chain [WithIssuer [], WithEvent (verification None)]
        (new_SecEventBuilder no_builder_options))
   = Inl (Error ''Issuer is required'') \<and>
   buildPayload env0
     (chain [WithIssuer ''https://issuer.example'', WithEvent (verification None),
             WithJti ''j-1'', WithClaim ''jti'' (Num (Finite 7))]
        (new_SecEventBuilder no_builder_options))
   = Inr [(''iss'', Str ''https://issuer.example''), (''jti'', Num (Finite 7)),
          (''iat'', Num (Finite 1700000000)),
          (''events'', Obj [(VERIFICATION, Obj [(''state'', Undefined)])])]"
proof -
  have frac: "\<not> is_integer (Finite (3 / 2))"
    by code_simp
  show ?thesis
    by (simp add: frac chain_def withIssuer_def withEvent_def withJti_def withIat_def
          withClaim_def new_SecEventBuilder_def no_builder_options_def spread_def
          verification_def buildPayload_def payload_jti_def payload_iat_def
          idGenerator_of_def env0_def del: is_integer.simps)
qed

section \<open>The event factory helpers\<close>

lemma get_spread_present:
  "distinct (map fst b) \<Longrightarrow> (k, v) \<in> set b \<Longrightarrow> get (spread a b) k = v"
  by (simp add: get_spread)

lemma keys_spread:
  "distinct (map fst b) \<Longrightarrow>
   map fst (spread a b) = map fst a @ filter (\<lambda>k. k \<notin> set (map fst a)) (map fst b)"
proof (induction b arbitrary: a)
  case Nil
  then show ?case by (simp add: spread_def)
next
  case (Cons x b)
  obtain k v where x: "x = (k, v)" by (cases x)
  from Cons.prems x have fresh: "k \<notin> set (map fst b)" and rest: "distinct (map fst b)"
    by auto
  have step: "spread a (x # b) = spread (AList.update k v a) b"
    by (simp add: spread_def x)
  show ?case
  proof (cases "k \<in> set (map fst a)")
    case True
    then have "map fst (AList.update k v a) = map fst a" by (simp add: update_keys)
    with Cons.IH [OF rest, of "AList.update k v a"] True x step show ?thesis by simp
  next
    case False
    then have keys: "map fst (AList.update k v a) = map fst a @ [k]"
      by (simp add: update_keys)
    from fresh have "filter (\<lambda>k'. k' \<notin> set (map fst a @ [k])) (map fst b) =
        filter (\<lambda>k'. k' \<notin> set (map fst a)) (map fst b)"
      by (intro filter_cong) auto
    with Cons.IH [OF rest, of "AList.update k v a"] keys False x step show ?thesis by simp
  qed
qed

lemma options_record:
  "(opts = None \<longrightarrow>
      spread [(''subject'', s), (''event_timestamp'', Num t)] (opt_props opts) =
        [(''subject'', s), (''event_timestamp'', Num t)]) \<and>
   (\<forall>ps. opts = Some ps \<and> distinct (map fst ps) \<longrightarrow>
      map fst (spread [(''subject'', s), (''event_timestamp'', Num t)] (opt_props opts)) =
        [''subject'', ''event_timestamp''] @
        filter (\<lambda>k. k \<noteq> ''subject'' \<and> k \<noteq> ''event_timestamp'') (map fst ps) \<and>
      (\<forall>k v. (k, v) \<in> set ps \<longrightarrow>
         get (spread [(''subject'', s), (''event_timestamp'', Num t)] (opt_props opts)) k
           = v) \<and>
      (''subject'' \<notin> fst ` set ps \<longrightarrow>
         get (spread [(''subject'', s), (''event_timestamp'', Num t)] (opt_props opts))
           ''subject'' = s) \<and>
      (''event_timestamp'' \<notin> fst ` set ps \<longrightarrow>
         get (spread [(''subject'', s), (''event_timestamp'', Num t)] (opt_props opts))
           ''event_timestamp'' = Num t))"
proof -
  have a: "opts = None \<longrightarrow>
      spread [(''subject'', s), (''event_timestamp'', Num t)] (opt_props opts) =
        [(''subject'', s), (''event_timestamp'', Num t)]"
    by (simp add: spread_def)
  have keys: "map fst (spread [(''subject'', s), (''event_timestamp'', Num t)] (opt_props opts))
      = [''subject'', ''event_timestamp''] @
        filter (\<lambda>k. k \<noteq> ''subject'' \<and> k \<noteq> ''event_timestamp'') (map fst ps)"
    if "opts = Some ps" "distinct (map fst ps)" for ps
    using that by (simp add: keys_spread)
  have given:
    "get (spread [(''subject'', s), (''event_timestamp'', Num t)] (opt_props opts)) k = v"
    if "opts = Some ps" "distinct (map fst ps)" "(k, v) \<in> set ps" for ps k v
    using that by (simp add: get_spread_present)
  have subj: "get (spread [(''subject'', s), (''event_timestamp'', Num t)] (opt_props opts))
        ''subject'' = s" if "opts = Some ps" "''subject'' \<notin> fst ` set ps" for ps
    using that by (simp add: get_spread_absent) (simp add: get_def)
  have time: "get (spread [(''subject'', s), (''event_timestamp'', Num t)] (opt_props opts))
        ''event_timestamp'' = Num t"
    if "opts = Some ps" "''event_timestamp'' \<notin> fst ` set ps" for ps
    using that by (simp add: get_spread_absent) (simp add: get_def)
  from a keys given subj time show ?thesis by blast
qed

text \<open>
  Claim C9, as amended. Every factory helper returns a mapping with exactly one entry,
  keyed by the helper's canonical event-type URI. The record of \<open>sessionRevoked\<close> and
  of \<open>tokenClaimsChange\<close> has exactly the properties subject, event_timestamp and the
  optional one (reason, claims), holding the arguments; the records of
  \<open>streamUpdated\<close> and \<open>verification\<close> have exactly their one optional property.
  An optional argument that is omitted is still a property of the record, holding
  \<open>undefined\<close>. The record of \<open>credentialChange\<close>, \<open>assuranceLevelChange\<close> and
  \<open>deviceComplianceChange\<close> is subject and event_timestamp alone when the options
  are omitted; with options it has exactly subject, event_timestamp and then the
  properties of the options, each holding the value the options give it, and subject
  and event_timestamp hold the arguments unless the options have a property of that
  name.
\<close>

theorem event_helpers_shape:
  "(\<exists>d. sessionRevoked s t reason = [(SESSION_REVOKED, Obj d)] \<and>
        map fst d = [''subject'', ''event_timestamp'', ''reason''] \<and>
        get d ''subject'' = s \<and> get d ''event_timestamp'' = Num t \<and>
        (reason = None \<longrightarrow> get d ''reason'' = Undefined) \<and>
        (\<forall>r. reason = Some r \<longrightarrow> get d ''reason'' = Str r)) \<and>
   (\<exists>d. tokenClaimsChange s t claims = [(TOKEN_CLAIMS_CHANGE, Obj d)] \<and>
        map fst d = [''subject'', ''event_timestamp'', ''claims''] \<and>
        get d ''subject'' = s \<and> get d ''event_timestamp'' = Num t \<and>
        (claims = None \<longrightarrow> get d ''claims'' = Undefined) \<and>
        (\<forall>c. claims = Some c \<longrightarrow> get d ''claims'' = Obj c)) \<and>
   (\<exists>d. credentialChange s t opts = [(CREDENTIAL_CHANGE, Obj d)] \<and>
        (opts = None \<longrightarrow> d = [(''subject'', s), (''event_timestamp'', Num t)]) \<and>
        (\<forall>ps. opts = Some ps \<and> distinct (map fst ps) \<longrightarrow>
           map fst d = [''subject'', ''event_timestamp''] @
             filter (\<lambda>k. k \<noteq> ''subject'' \<and> k \<noteq> ''event_timestamp'') (map fst ps) \<and>
           (\<forall>k v. (k, v) \<in> set ps \<longrightarrow> get d k = v) \<and>
           (''subject'' \<notin> fst ` set ps \<longrightarrow> get d ''subject'' = s) \<and>
           (''event_timestamp'' \<notin> fst ` set ps \<longrightarrow> get d ''event_timestamp'' = Num t))) \<and>
   (\<exists>d. assuranceLevelChange s t opts = [(ASSURANCE_LEVEL_CHANGE, Obj d)] \<and>
        (opts = None \<longrightarrow> d = [(''subject'', s), (''event_timestamp'', Num t)]) \<and>
        (\<forall>ps. opts = Some ps \<and> distinct (map fst ps) \<longrightarrow>
           map fst d = [''subject'', ''event_timestamp''] @
             filter (\<lambda>k. k \<noteq> ''subject'' \<and> k \<noteq> ''event_timestamp'') (map fst ps) \<and>
           (\<forall>k v. (k, v) \<in> set ps \<longrightarrow> get d k = v) \<and>
           (''subject'' \<notin> fst ` set ps \<longrightarrow> get d ''subject'' = s) \<and>
           (''event_timestamp'' \<notin> fst ` set ps \<longrightarrow> get d ''event_timestamp'' = Num t))) \<and>
   (\<exists>d. deviceComplianceChange s t opts = [(DEVICE_COMPLIANCE_CHANGE, Obj d)] \<and>
        (opts = None \<longrightarrow> d = [(''subject'', s), (''event_timestamp'', Num t)]) \<and>
        (\<forall>ps. opts = Some ps \<and> distinct (map fst ps) \<longrightarrow>
           map fst d = [''subject'', ''event_timestamp''] @
             filter (\<lambda>k. k \<noteq> ''subject'' \<and> k \<noteq> ''event_timestamp'') (map fst ps) \<and>
           (\<forall>k v. (k, v) \<in> set ps \<longrightarrow> get d k = v) \<and>
           (''subject'' \<notin> fst ` set ps \<longrightarrow> get d ''subject'' = s) \<and>
           (''event_timestamp'' \<notin> fst ` set ps \<longrightarrow> get d ''event_timestamp'' = Num t))) \<and>
   (\<exists>d. streamUpdated effectiveTime = [(STREAM_UPDATED, Obj d)] \<and>
        map fst d = [''effective_time''] \<and>
        (effectiveTime = None \<longrightarrow> get d ''effective_time'' = Undefined) \<and>
        (\<forall>n. effectiveTime = Some n \<longrightarrow> get d ''effective_time'' = Num n)) \<and>
   (\<exists>d. verification state = [(VERIFICATION, Obj d)] \<and>
        map fst d = [''state''] \<and>
        (state = None \<longrightarrow> get d ''state'' = Undefined) \<and>
        (\<forall>x. state = Some x \<longrightarrow> get d ''state'' = Str x))"
proof -
  have sr: "\<exists>d. sessionRevoked s t reason = [(SESSION_REVOKED, Obj d)] \<and>
        map fst d = [''subject'', ''event_timestamp'', ''reason''] \<and>
        get d ''subject'' = s \<and> get d ''event_timestamp'' = Num t \<and>
        (reason = None \<longrightarrow> get d ''reason'' = Undefined) \<and>
        (\<forall>r. reason = Some r \<longrightarrow> get d ''reason'' = Str r)"
    by (simp add: sessionRevoked_def get_def)
  have tc: "\<exists>d. tokenClaimsChange s t claims = [(TOKEN_CLAIMS_CHANGE, Obj d)] \<and>
        map fst d = [''subject'', ''event_timestamp'', ''claims''] \<and>
        get d ''subject'' = s \<and> get d ''event_timestamp'' = Num t \<and>
        (claims = None \<longrightarrow> get d ''claims'' = Undefined) \<and>
        (\<forall>c. claims = Some c \<longrightarrow> get d ''claims'' = Obj c)"
    by (simp add: tokenClaimsChange_def get_def)
  have su: "\<exists>d. streamUpdated effectiveTime = [(STREAM_UPDATED, Obj d)] \<and>
        map fst d = [''effective_time''] \<and>
        (effectiveTime = None \<longrightarrow> get d ''effective_time'' = Undefined) \<and>
        (\<forall>n. effectiveTime = Some n \<longrightarrow> get d ''effective_time'' = Num n)"
    by (simp add: streamUpdated_def get_def)
  have ve: "\<exists>d. verification state = [(VERIFICATION, Obj d)] \<and>
        map fst d = [''state''] \<and>
        (state = None \<longrightarrow> get d ''state'' = Undefined) \<and>
        (\<forall>x. state = Some x \<longrightarrow> get d ''state'' = Str x)"
    by (simp add: verification_def get_def)
  note rec = options_record [of opts s t]
  have cc: "\<exists>d. credentialChange s t opts = [(CREDENTIAL_CHANGE, Obj d)] \<and>
        (opts = None \<longrightarrow> d = [(''subject'', s), (''event_timestamp'', Num t)]) \<and>
        (\<forall>ps. opts = Some ps \<and> distinct (map fst ps) \<longrightarrow>
           map fst d = [''subject'', ''event_timestamp''] @
             filter (\<lambda>k. k \<noteq> ''subject'' \<and> k \<noteq> ''event_timestamp'') (map fst ps) \<and>
           (\<forall>k v. (k, v) \<in> set ps \<longrightarrow> get d k = v) \<and>
           (''subject'' \<notin> fst ` set ps \<longrightarrow> get d ''subject'' = s) \<and>
           (''event_timestamp'' \<notin> fst ` set ps \<longrightarrow> get d ''event_timestamp'' = Num t))"
    unfolding credentialChange_def using rec by blast
  have al: "\<exists>d. assuranceLevelChange s t opts = [(ASSURANCE_LEVEL_CHANGE, Obj d)] \<and>
        (opts = None \<longrightarrow> d = [(''subject'', s), (''event_timestamp'', Num t)]) \<and>
        (\<forall>ps. opts = Some ps \<and> distinct (map fst ps) \<longrightarrow>
           map fst d = [''subject'', ''event_timestamp''] @
             filter (\<lambda>k. k \<noteq> ''subject'' \<and> k \<noteq> ''event_timestamp'') (map fst ps) \<and>
           (\<forall>k v. (k, v) \<in> set ps \<longrightarrow> get d k = v) \<and>
           (''subject'' \<notin> fst ` set ps \<longrightarrow> get d ''subject'' = s) \<and>
           (''event_timestamp'' \<notin> fst ` set ps \<longrightarrow> get d ''event_timestamp'' = Num t))"
    unfolding assuranceLevelChange_def using rec by blast
  have dc: "\<exists>d. deviceComplianceChange s t opts = [(DEVICE_COMPLIANCE_CHANGE, Obj d)] \<and>
        (opts = None \<longrightarrow> d = [(''subject'', s), (''event_timestamp'', Num t)]) \<and>
        (\<forall>ps. opts = Some ps \<and> distinct (map fst ps) \<longrightarrow>
           map fst d = [''subject'', ''event_timestamp''] @
             filter (\<lambda>k. k \<noteq> ''subject'' \<and> k \<noteq> ''event_timestamp'') (map fst ps) \<and>
           (\<forall>k v. (k, v) \<in> set ps \<longrightarrow> get d k = v) \<and>
           (''subject'' \<notin> fst ` set ps \<longrightarrow> get d ''subject'' = s) \<and>
           (''event_timestamp'' \<notin> fst ` set ps \<longrightarrow> get d ''event_timestamp'' = Num t))"
    unfolding deviceComplianceChange_def using rec by blast
  from sr tc cc al dc su ve show ?thesis by blast
qed

theorem event_helpers_shape_witness:
  "credentialChange (Obj [(''format'', Str ''email''), (''email'', Str ''user@example.com'')])
     (Finite 1700000000) (Some [(''credential_type'', Str ''password'')])
   = [(CREDENTIAL_CHANGE,
       Obj [(''subject'', Obj [(''format'', Str ''email''), (''email'', Str ''user@example.com'')]),
            (''event_timestamp'', Num (Finite 1700000000)),
            (''credential_type'', Str ''password'')])] \<and>
   credentialChange (Str ''s'') (Finite 5) None
   = [(CREDENTIAL_CHANGE, Obj [(''subject'', Str ''s''), (''event_timestamp'', Num (Finite 5))])] \<and>
   sessionRevoked (Str ''s'') (Finite 5) (Some ''security_policy'')
   = [(SESSION_REVOKED,
       Obj [(''subject'', Str ''s''), (''event_timestamp'', Num (Finite 5)),
            (''reason'', Str ''security_policy'')])]"
  using event_helpers_shape
     [of "Obj [(''format'', Str ''email''), (''email'', Str ''user@example.com'')]"
         "Finite 1700000000" None None "Some [(''credential_type'', Str ''password'')]"
         None None]
     event_helpers_shape [of "Str ''s''" "Finite 5" "Some ''security_policy''" None None None None]
  by (simp add: credentialChange_def sessionRevoked_def spread_def)

text \<open>
  Claim C9 as stated fails: the record of \<open>verification()\<close> has the property
  \<open>state\<close>, that of \<open>sessionRevoked(s, t)\<close> the property \<open>reason\<close>; and a
  \<open>subject\<close> among the options replaces the subject given.
\<close>

theorem omitted_argument_is_undefined_property:
  "verification None = [(VERIFICATION, Obj [(''state'', Undefined)])] \<and>
   Object_keys (Obj [(''state'', Undefined)]) = [''state''] \<and>
   sessionRevoked (Str ''s'') (Finite 5) None
   = [(SESSION_REVOKED,
       Obj [(''subject'', Str ''s''), (''event_timestamp'', Num (Finite 5)),
            (''reason'', Undefined)])] \<and>
   credentialChange (Str ''s'') (Finite 5) (Some [(''subject'', Str ''other'')])
   = [(CREDENTIAL_CHANGE,
       Obj [(''subject'', Str ''other''), (''event_timestamp'', Num (Finite 5))])]"
  by (simp add: verification_def sessionRevoked_def credentialChange_def spread_def)

section \<open>The parser: decode\<close>

lemma not_object_iff: "(\<not> truthy v \<or> typeof v \<noteq> ''object'') \<longleftrightarrow> \<not> is_object v"
  by (cases v) simp_all

lemma not_string_iff: "(\<not> truthy v \<or> typeof v \<noteq> ''string'') \<longleftrightarrow> \<not> is_nonempty_string v"
  by (cases v) simp_all

lemma not_number_iff: "typeof v \<noteq> ''number'' \<longleftrightarrow> \<not> is_number v"
  by (cases v) simp_all

lemma validatePayloadStructure_cases:
  "validatePayloadStructure p =
     (if \<not> is_object (get p ''events'') then Inl (Error ''Missing or invalid events claim'')
      else if \<not> is_nonempty_string (get p ''iss'')
      then Inl (Error ''Missing or invalid issuer claim'')
      else if \<not> is_nonempty_string (get p ''jti'')
      then Inl (Error ''Missing or invalid jti claim'')
      else if \<not> is_number (get p ''iat'') then Inl (Error ''Missing or invalid iat claim'')
      else Inr ())"
  unfolding validatePayloadStructure_def not_object_iff not_string_iff not_number_iff
  by (rule refl)

text \<open>
  Claim C6, as amended. \<open>decode\<close> throws what \<open>decodeJwt\<close> throws when the token
  cannot be parsed. Otherwise it checks the payload in this order, the first check that
  fails giving the error: the missing-events error unless the events claim is a non-null
  object (a mapping or an array), the missing-issuer error unless iss is a non-empty
  string, the missing-jti error unless jti is a non-empty string, the missing-iat error
  unless iat is a number. A payload that passes all four is returned unchanged.
\<close>

theorem decode_outcome:
  "(\<forall>e. decodeJwt L jwt = Inl e \<longrightarrow> decode L jwt = Inl e) \<and>
   (\<forall>p. decodeJwt L jwt = Inr p \<longrightarrow>
      decode L jwt =
        (if \<not> is_object (get p ''events'')
         then Inl (Error ''Missing or invalid events claim'')
         else if \<not> is_nonempty_string (get p ''iss'')
         then Inl (Error ''Missing or invalid issuer claim'')
         else if \<not> is_nonempty_string (get p ''jti'')
         then Inl (Error ''Missing or invalid jti claim'')
         else if \<not> is_number (get p ''iat'')
         then Inl (Error ''Missing or invalid iat claim'')
         else Inr p))"
  by (simp add: decode_def validatePayloadStructure_cases)

theorem decode_outcome_witness:
  "decode lib0 ''t0'' = Inr payload0 \<and> decode lib0 ''garbage'' = Inl (Error ''Invalid JWT'')"
  using decode_outcome [of lib0 "''t0''"] decode_outcome [of lib0 "''garbage''"]
  by (simp add: lib0_def decodeJwt0_def payload0_def get_def)

text \<open>
  Claim C6 as stated fails: a payload whose events claim is an array, which is no
  mapping, is returned by \<open>decode\<close>.
\<close>

theorem decode_accepts_array_events:
  "decode lib0 ''t1'' =
     Inr [(''iss'', Str ''https://issuer.example''), (''jti'', Str ''id-1''),
          (''iat'', Num (Finite 1700000000)), (''events'', Arr [])]"
  by (simp add: decode_def lib0_def decodeJwt0_def payload_array_def
        validatePayloadStructure_def get_def)

section \<open>The parser: semantic validation\<close>

lemma structure_error_not_uri:
  "filter is_uri_error
     (case validatePayloadStructure p of
        Inl e \<Rightarrow> [message_or ''Invalid payload structure'' e] | Inr _ \<Rightarrow> []) = []"
  by (simp add: validatePayloadStructure_def is_uri_error_def)

lemma required_errors_not_uri:
  "filter is_uri_error (map (\<lambda>claim. ''Missing required claim: '' @ claim) cs) = []"
  by (induction cs) (simp_all add: is_uri_error_def)

lemma uri_errors_are_uri:
  "filter is_uri_error (map (\<lambda>eventUri. ''Invalid event URI format: '' @ eventUri) ks) =
     map (\<lambda>eventUri. ''Invalid event URI format: '' @ eventUri) ks"
  by (induction ks) (simp_all add: is_uri_error_def)

lemma uri_errors_of_validateSecEvent:
  "filter is_uri_error (validateSecEvent L p opts) =
     (if truthy (get p ''events'')
      then map (\<lambda>eventUri. ''Invalid event URI format: '' @ eventUri)
             (filter (\<lambda>eventUri. \<not> isValidEventUri L eventUri)
                (Object_keys (get p ''events'')))
      else [])"
proof -
  have none: "\<not> is_uri_error ''No events present in events claim''"
    by (simp add: is_uri_error_def)
  show ?thesis
    unfolding validateSecEvent_def Let_def filter_append structure_error_not_uri
    by (simp add: required_errors_not_uri uri_errors_are_uri none split: option.split)
qed

lemma verify_after_signature:
  assumes "fst (verifySignature L P jwt k (mergedOptions_of P opts)) = Inr p"
  shows "verify L P jwt k opts =
     Inr (if validateSecEvent L p (mergedOptions_of P opts) = []
          then \<lparr> valid = True, payload = Some p, error = None, errors = None \<rparr>
          else \<lparr> valid = False, payload = None,
                 error = Some (join ''; '' (validateSecEvent L p (mergedOptions_of P opts))),
                 errors = Some (validateSecEvent L p (mergedOptions_of P opts)) \<rparr>)"
  using assms by (simp add: verify_def verify_try_def Let_def)

lemma verify_signature_fails:
  assumes "fst (verifySignature L P jwt k (mergedOptions_of P opts)) = Inl e"
  shows "verify L P jwt k opts =
     Inr \<lparr> valid = False, payload = None,
           error = Some (message_or ''Unknown error'' e), errors = None \<rparr>"
  using assms by (simp add: verify_def verify_try_def Let_def)

lemma isValidEventUri_iff: "isValidEventUri L k \<longleftrightarrow> http_or_https_uri L k"
  by (auto simp add: isValidEventUri_def http_or_https_uri_def split: sum.split)

text \<open>
  Claim C7. Let the events claim of the payload be a mapping. A key is a valid event
  URI when \<open>new URL\<close> parses it and the protocol of the result is \<open>http:\<close> or
  \<open>https:\<close>. Then the errors of the form \<open>Invalid event URI format: <key>\<close> in the
  list that \<open>validateSecEvent\<close> returns are, in the order of the keys, one for each
  key that is not valid: every such key has its error, none is there when every key is
  valid, and \<open>verify\<close>, once the signature is verified, returns them all in an
  invalid result.
\<close>

theorem invalid_event_uris_reported:
  assumes "get p ''events'' = Obj evs"
  shows "filter is_uri_error (validateSecEvent L p opts) =
           map (\<lambda>k. ''Invalid event URI format: '' @ k)
             (filter (\<lambda>k. \<not> http_or_https_uri L k) (map fst evs)) \<and>
         (\<forall>k \<in> set (map fst evs). \<not> http_or_https_uri L k \<longrightarrow>
            ''Invalid event URI format: '' @ k \<in> set (validateSecEvent L p opts)) \<and>
         ((\<forall>k \<in> set (map fst evs). http_or_https_uri L k) \<longrightarrow>
            filter is_uri_error (validateSecEvent L p opts) = []) \<and>
         (\<forall>P jwt arg.
            fst (verifySignature L P jwt arg (mergedOptions_of P vopts)) = Inr p \<and>
            opts = mergedOptions_of P vopts \<and>
            (\<exists>k \<in> set (map fst evs). \<not> http_or_https_uri L k) \<longrightarrow>
            verify L P jwt arg vopts =
              Inr \<lparr> valid = False, payload = None,
                    error = Some (join ''; '' (validateSecEvent L p opts)),
                    errors = Some (validateSecEvent L p opts) \<rparr>)"
proof -
  have listed: "filter is_uri_error (validateSecEvent L p opts) =
           map (\<lambda>k. ''Invalid event URI format: '' @ k)
             (filter (\<lambda>k. \<not> http_or_https_uri L k) (map fst evs))"
    by (simp add: uri_errors_of_validateSecEvent assms isValidEventUri_iff)
  have each: "''Invalid event URI format: '' @ k \<in> set (validateSecEvent L p opts)"
    if "k \<in> set (map fst evs)" "\<not> http_or_https_uri L k" for k
  proof -
    from that have "''Invalid event URI format: '' @ k \<in>
        set (map (\<lambda>k. ''Invalid event URI format: '' @ k)
               (filter (\<lambda>k. \<not> http_or_https_uri L k) (map fst evs)))"
      by auto
    then have "''Invalid event URI format: '' @ k \<in>
        set (filter is_uri_error (validateSecEvent L p opts))"
      by (simp only: listed)
    then show ?thesis by simp
  qed
  have none: "filter is_uri_error (validateSecEvent L p opts) = []"
    if "\<forall>k \<in> set (map fst evs). http_or_https_uri L k"
    using that by (simp add: listed)
  have reported: "verify L P jwt arg vopts =
              Inr \<lparr> valid = False, payload = None,
                    error = Some (join ''; '' (validateSecEvent L p opts)),
                    errors = Some (validateSecEvent L p opts) \<rparr>"
    if sig: "fst (verifySignature L P jwt arg (mergedOptions_of P vopts)) = Inr p"
      and m: "opts = mergedOptions_of P vopts"
      and bad: "\<exists>k \<in> set (map fst evs). \<not> http_or_https_uri L k"
    for P jwt arg
  proof -
    from bad each have "validateSecEvent L p opts \<noteq> []" by fastforce
    with verify_after_signature [OF sig] m show ?thesis by simp
  qed
  from listed each none reported show ?thesis by blast
qed

theorem invalid_event_uris_reported_witness:
  "validateSecEvent lib0 payload_bad_uris no_options =
     [''Invalid event URI format: not-a-url'',
      ''Invalid event URI format: urn:example:event''] \<and>
   http_or_https_uri lib0 ''http://example.com/event'' \<and>
   http_or_https_uri lib0 VERIFICATION \<and>
   \<not> http_or_https_uri lib0 ''urn:example:event'' \<and>
   \<not> http_or_https_uri lib0 ''not-a-url'' \<and>
   verify lib0 parser0 ''t2'' (Some (SingleKey key_secret)) None =
     Inr \<lparr> valid = False, payload = None,
           error = Some (''Invalid event URI format: not-a-url; '' @
                         ''Invalid event URI format: urn:example:event''),
           errors = Some [''Invalid event URI format: not-a-url'',
                          ''Invalid event URI format: urn:example:event''] \<rparr> \<and>
   validateSecEvent lib0 payload0 no_options = []"
proof -
  have ev: "get payload_bad_uris ''events'' =
      Obj [(''not-a-url'', Obj []), (VERIFICATION, Obj []),
           (''http://example.com/event'', Obj []), (''urn:example:event'', Obj [])]"
    by (simp add: payload_bad_uris_def get_def)
  have spec_keys:
    "\<not> http_or_https_uri lib0 ''not-a-url''" "http_or_https_uri lib0 VERIFICATION"
    "http_or_https_uri lib0 ''http://example.com/event''"
    "\<not> http_or_https_uri lib0 ''urn:example:event''"
    by (simp_all add: http_or_https_uri_def lib0_def new_URL0_def VERIFICATION_def)
  have valid_keys:
    "\<not> isValidEventUri lib0 ''not-a-url''" "isValidEventUri lib0 VERIFICATION"
    "isValidEventUri lib0 ''http://example.com/event''"
    "\<not> isValidEventUri lib0 ''urn:example:event''"
    by (simp_all add: isValidEventUri_def lib0_def new_URL0_def VERIFICATION_def)
  have struct_ok: "validatePayloadStructure payload_bad_uris = Inr ()"
    "validatePayloadStructure payload0 = Inr ()"
    by (simp_all add: validatePayloadStructure_def payload_bad_uris_def payload0_def get_def)
  have errs: "validateSecEvent lib0 payload_bad_uris no_options =
     [''Invalid event URI format: not-a-url'',
      ''Invalid event URI format: urn:example:event'']"
    by (simp add: validateSecEvent_def struct_ok ev valid_keys no_options_def)
  have ok: "validateSecEvent lib0 payload0 no_options = []"
    by (simp add: validateSecEvent_def struct_ok valid_keys no_options_def)
       (simp add: payload0_def get_def valid_keys)
  have m: "mergedOptions_of parser0 None = no_options"
    by (simp add: mergedOptions_of_def spreadOptions_def parser0_def no_parser_options_def
          no_options_def)
  have sig: "fst (verifySignature lib0 parser0 ''t2'' (Some (SingleKey key_secret))
                    (mergedOptions_of parser0 None)) = Inr payload_bad_uris"
    by (simp add: verifySignature_def keys_of_def parser0_def lib0_def jwtVerify0_def
          decodeJwt0_def key_secret_def)
  from invalid_event_uris_reported [OF ev, of lib0 no_options None] sig m spec_keys errs ok
  show ?thesis by auto
qed

section \<open>The parser: the key loop\<close>

lemma tryKeys_success:
  assumes "\<forall>x \<in> set pre. isl (v (KeyMaterial (key x)))" and "v (KeyMaterial (key k)) = Inr p"
  shows "\<exists>le'. tryKeys v (pre @ k # post) le tr =
           (Some p, le', tr @ map (\<lambda>x. KeyMaterial (key x)) (pre @ [k]))"
  using assms
proof (induction pre arbitrary: le tr)
  case Nil
  then show ?case by simp
next
  case (Cons a pre)
  from Cons.prems obtain e where e: "v (KeyMaterial (key a)) = Inl e"
    by (cases "v (KeyMaterial (key a))") auto
  from Cons.prems have rest: "\<forall>x \<in> set pre. isl (v (KeyMaterial (key x)))" by simp
  from Cons.IH [OF rest Cons.prems(2), of "Some e" "tr @ [KeyMaterial (key a)]"] e
  show ?case by simp
qed

lemma tryKeys_all_fail:
  assumes "\<forall>x \<in> set ks. isl (v (KeyMaterial (key x)))"
  shows "tryKeys v ks le tr =
           (None,
            (if ks = [] then le else Some (projl (v (KeyMaterial (key (last ks)))))),
            tr @ map (\<lambda>x. KeyMaterial (key x)) ks)"
  using assms
proof (induction ks arbitrary: le tr)
  case Nil
  then show ?case by simp
next
  case (Cons a ks)
  from Cons.prems obtain e where e: "v (KeyMaterial (key a)) = Inl e"
    by (cases "v (KeyMaterial (key a))") auto
  from Cons.prems have rest: "\<forall>x \<in> set ks. isl (v (KeyMaterial (key x)))" by simp
  from Cons.IH [OF rest, of "Some e" "tr @ [KeyMaterial (key a)]"] e
  show ?case by simp
qed

lemma tryKeys_tried_subset:
  "set (snd (snd (tryKeys v ks le tr))) \<subseteq> set tr \<union> (\<lambda>x. KeyMaterial (key x)) ` set ks"
proof (induction ks arbitrary: le tr)
  case Nil
  then show ?case by simp
next
  case (Cons a ks)
  show ?case
  proof (cases "v (KeyMaterial (key a))")
    case (Inl e)
    with Cons.IH [of "Some e" "tr @ [KeyMaterial (key a)]"] show ?thesis by auto
  next
    case (Inr p)
    then show ?thesis by auto
  qed
qed

lemma tryKeys_lastError:
  "tryKeys v ks le tr = (None, Some e, tried) \<Longrightarrow>
     le = Some e \<or> (\<exists>k \<in> set ks. v (KeyMaterial (key k)) = Inl e)"
proof (induction ks arbitrary: le tr)
  case Nil
  then show ?case by simp
next
  case (Cons a ks)
  show ?case
  proof (cases "v (KeyMaterial (key a))")
    case (Inl e')
    with Cons.prems have "tryKeys v ks (Some e') (tr @ [KeyMaterial (key a)]) = (None, Some e, tried)"
      by simp
    from Cons.IH [OF this] Inl show ?thesis by auto
  next
    case (Inr p)
    with Cons.prems show ?thesis by simp
  qed
qed

section \<open>The parser: verify\<close>

lemma verifySignature_jwks:
  "jwks P = Some j \<Longrightarrow>
   verifySignature L P jwt arg m =
     (jwtVerify L jwt (RemoteKeys j) (jwtOptions_of m), [RemoteKeys j])"
  by (simp add: verifySignature_def Let_def)

lemma verifySignature_keys:
  "jwks P = None \<Longrightarrow> keys_of P arg = Some ks \<Longrightarrow>
   verifySignature L P jwt arg m =
     (case tryKeys (\<lambda>k. jwtVerify L jwt k (jwtOptions_of m)) ks None [] of
        (Some p, _, tried) \<Rightarrow> (Inr p, tried)
      | (None, lastError, tried) \<Rightarrow>
          (Inl (case lastError of
                  Some e \<Rightarrow>
                    if truthy_thrown e then e
                    else Error ''Verification failed with all provided keys''
                | None \<Rightarrow> Error ''Verification failed with all provided keys''),
           tried))"
  by (simp add: verifySignature_def Let_def)

lemma verifySignature_none:
  "jwks P = None \<Longrightarrow> keys_of P arg = None \<Longrightarrow>
   verifySignature L P jwt arg m =
     (Inl (Error ''No verification key or JWKS URL provided''), [])"
  by (simp add: verifySignature_def Let_def)

lemma mergedOptions_parser0: "mergedOptions_of parser0 None = no_options"
  by (simp add: mergedOptions_of_def spreadOptions_def parser0_def no_parser_options_def
        no_options_def)

lemma validate_payload0: "validateSecEvent lib0 payload0 no_options = []"
  by (simp add: validateSecEvent_def validatePayloadStructure_def payload0_def get_def
        no_options_def isValidEventUri_def lib0_def new_URL0_def VERIFICATION_def)

lemma verify_parser0_secret:
  "verify lib0 parser0 ''t0'' (Some (SingleKey key_secret)) None =
     Inr \<lparr> valid = True, payload = Some payload0, error = None, errors = None \<rparr>"
proof -
  have "fst (verifySignature lib0 parser0 ''t0'' (Some (SingleKey key_secret))
               (mergedOptions_of parser0 None)) = Inr payload0"
    by (simp add: verifySignature_def keys_of_def parser0_def lib0_def jwtVerify0_def
          decodeJwt0_def key_secret_def)
  from verify_after_signature [OF this] show ?thesis
    by (simp add: mergedOptions_parser0 validate_payload0)
qed

lemma verify_parser0_wrong:
  "verify lib0 parser0 ''t0'' (Some (SingleKey key_wrong1)) None =
     Inr \<lparr> valid = False, payload = None,
           error = Some ''signature verification failed'', errors = None \<rparr>"
proof -
  have "fst (verifySignature lib0 parser0 ''t0'' (Some (SingleKey key_wrong1))
               (mergedOptions_of parser0 None)) = Inl (Error ''signature verification failed'')"
    by (simp add: verifySignature_def keys_of_def parser0_def lib0_def jwtVerify0_def
          key_wrong1_def)
  from verify_signature_fails [OF this] show ?thesis by simp
qed

lemma join_nonempty: "xs \<noteq> [] \<Longrightarrow> \<forall>x \<in> set xs. x \<noteq> [] \<Longrightarrow> join sep xs \<noteq> []"
  by (induction sep xs rule: join.induct) simp_all

lemma validateSecEvent_nonempty: "\<forall>e \<in> set (validateSecEvent L p m). e \<noteq> []"
  by (auto simp add: validateSecEvent_def validatePayloadStructure_def Let_def
        split: option.split)

lemma verifySignature_empty_message:
  assumes "fst (verifySignature L P jwt arg m) = Inl (Error [])"
  shows "\<exists>src. jwtVerify L jwt src (jwtOptions_of m) = Inl (Error [])"
proof (cases "jwks P")
  case (Some j)
  with assms show ?thesis by (auto simp add: verifySignature_jwks)
next
  case None
  show ?thesis
  proof (cases "keys_of P arg")
    case no_keys: None
    with None assms show ?thesis by (simp add: verifySignature_none)
  next
    case (Some ks)
    obtain res lastError tried where
      loop: "tryKeys (\<lambda>k. jwtVerify L jwt k (jwtOptions_of m)) ks None [] =
               (res, lastError, tried)"
      by (cases "tryKeys (\<lambda>k. jwtVerify L jwt k (jwtOptions_of m)) ks None []") auto
    from assms None Some loop have "res = None \<and> lastError = Some (Error [])"
      by (cases res; cases lastError)
         (auto simp add: verifySignature_keys split: if_splits)
    with loop tryKeys_lastError
      [of "\<lambda>k. jwtVerify L jwt k (jwtOptions_of m)" ks None "[]" "Error []" tried]
    show ?thesis by auto
  qed
qed

text \<open>
  Claim C10, as amended. Every result that \<open>verify\<close> returns has a payload exactly
  when it is valid and an error exactly when it is not valid, so never both and never
  neither; the error is a non-empty string unless \<open>jwtVerify\<close> has thrown an
  \<open>Error\<close> whose message is empty.
\<close>

theorem verify_result_shape:
  "\<exists>r. verify L P jwt arg opts = Inr r \<and>
     (payload r \<noteq> None \<longleftrightarrow> valid r) \<and>
     (error r \<noteq> None \<longleftrightarrow> \<not> valid r) \<and>
     ((\<forall>src. jwtVerify L jwt src (jwtOptions_of (mergedOptions_of P opts)) \<noteq> Inl (Error []))
        \<longrightarrow> error r \<noteq> Some [])"
proof (cases "fst (verifySignature L P jwt arg (mergedOptions_of P opts))")
  case (Inl e)
  have "message_or ''Unknown error'' e \<noteq> []"
    if "\<forall>src. jwtVerify L jwt src (jwtOptions_of (mergedOptions_of P opts)) \<noteq> Inl (Error [])"
  proof (cases e)
    case (Error msg)
    with Inl that verifySignature_empty_message [of L P jwt arg "mergedOptions_of P opts"]
    show ?thesis by auto
  next
    case (Thrown v)
    then show ?thesis by simp
  qed
  with verify_signature_fails [OF Inl] show ?thesis by auto
next
  case (Inr p)
  show ?thesis
  proof (cases "validateSecEvent L p (mergedOptions_of P opts) = []")
    case True
    with verify_after_signature [OF Inr] show ?thesis by simp
  next
    case False
    from join_nonempty [OF False validateSecEvent_nonempty]
    have "join ''; '' (validateSecEvent L p (mergedOptions_of P opts)) \<noteq> []" .
    with False verify_after_signature [OF Inr] show ?thesis by simp
  qed
qed

theorem verify_result_shape_witness:
  "verify lib0 parser0 ''t0'' (Some (SingleKey key_wrong1)) None =
     Inr \<lparr> valid = False, payload = None,
           error = Some ''signature verification failed'', errors = None \<rparr> \<and>
   jwtVerify lib0 ''t0'' (KeyMaterial (Str ''wrong-1'')) (jwtOptions_of no_options) \<noteq>
     Inl (Error [])"
  using verify_result_shape [of lib0 parser0 "''t0''" "Some (SingleKey key_wrong1)" None]
    verify_parser0_wrong
  by (simp add: lib0_def jwtVerify0_def)

text \<open>
  Claim C10 as stated fails: when \<open>jwtVerify\<close> throws an \<open>Error\<close> with the empty
  message, the result is invalid and its error is the empty string.
\<close>

theorem verify_empty_error:
  "verify lib_silent parser0 ''t0'' (Some (SingleKey key_secret)) None =
     Inr \<lparr> valid = False, payload = None, error = Some [], errors = None \<rparr>"
  by (simp add: verify_def verify_try_def verifySignature_def keys_of_def parser0_def
        lib_silent_def jwtVerify_silent_def Let_def)

lemma verify_calls_subset:
  assumes "jwks P = None" and "keys_of P arg = Some ks"
  shows "set (verify_calls L P jwt arg opts) \<subseteq> (\<lambda>x. KeyMaterial (key x)) ` set ks"
proof -
  let ?v = "\<lambda>k. jwtVerify L jwt k (jwtOptions_of (mergedOptions_of P opts))"
  obtain res lastError tried where loop: "tryKeys ?v ks None [] = (res, lastError, tried)"
    by (cases "tryKeys ?v ks None []") auto
  from tryKeys_tried_subset [of ?v ks None "[]"] loop
  have "set tried \<subseteq> (\<lambda>x. KeyMaterial (key x)) ` set ks" by simp
  moreover from assms loop have "verify_calls L P jwt arg opts = tried"
    by (cases res) (simp_all add: verify_calls_def verifySignature_keys)
  ultimately show ?thesis by simp
qed

lemma verify_cong:
  "verifySignature L P jwt arg (mergedOptions_of P opts) =
   verifySignature L P jwt arg' (mergedOptions_of P opts) \<Longrightarrow>
   verify L P jwt arg opts = verify L P jwt arg' opts \<and>
   verify_calls L P jwt arg opts = verify_calls L P jwt arg' opts"
  by (simp add: verify_def verify_try_def verify_calls_def)

lemma verifySignature_same_keys:
  "keys_of P arg = keys_of P arg' \<Longrightarrow>
   verifySignature L P jwt arg m = verifySignature L P jwt arg' m"
  by (simp add: verifySignature_def)

text \<open>
  Claim C2, as amended. When the parser has a remote key-set resolver, \<open>verify\<close>
  hands the token to \<open>jwtVerify\<close> with that resolver and with nothing else, whatever
  the key argument and the static keys. When it has none: a key given as argument is
  the one key tried, keys given as a sequence are the only keys tried, and without a key
  argument the static verification keys are used as if they had been given as the
  sequence; with no key argument and no static keys \<open>verify\<close> calls nothing and
  returns the no-verification-method error.
\<close>

theorem key_source_selection:
  "(\<forall>j. jwks P = Some j \<longrightarrow>
      verify_calls L P jwt arg opts = [RemoteKeys j] \<and>
      fst (verifySignature L P jwt arg (mergedOptions_of P opts)) =
        jwtVerify L jwt (RemoteKeys j) (jwtOptions_of (mergedOptions_of P opts))) \<and>
   (jwks P = None \<longrightarrow>
      (\<forall>k. arg = Some (SingleKey k) \<longrightarrow>
         verify_calls L P jwt arg opts = [KeyMaterial (key k)] \<and>
         verify L P jwt arg opts = verify L P jwt (Some (KeyList [k])) opts) \<and>
      (\<forall>ks. arg = Some (KeyList ks) \<longrightarrow>
         set (verify_calls L P jwt arg opts) \<subseteq> (\<lambda>x. KeyMaterial (key x)) ` set ks) \<and>
      (\<forall>ks. arg = None \<and> verificationKeys (parser_options P) = Some ks \<longrightarrow>
         verify L P jwt arg opts = verify L P jwt (Some (KeyList ks)) opts \<and>
         verify_calls L P jwt arg opts = verify_calls L P jwt (Some (KeyList ks)) opts) \<and>
      (arg = None \<and> verificationKeys (parser_options P) = None \<longrightarrow>
         verify_calls L P jwt arg opts = [] \<and>
         verify L P jwt arg opts =
           Inr \<lparr> valid = False, payload = None,
                 error = Some ''No verification key or JWKS URL provided'',
                 errors = None \<rparr>))"
proof -
  have remote: "verify_calls L P jwt arg opts = [RemoteKeys j] \<and>
      fst (verifySignature L P jwt arg (mergedOptions_of P opts)) =
        jwtVerify L jwt (RemoteKeys j) (jwtOptions_of (mergedOptions_of P opts))"
    if "jwks P = Some j" for j
    using that by (simp add: verify_calls_def verifySignature_jwks)
  have single: "verify_calls L P jwt arg opts = [KeyMaterial (key k)] \<and>
         verify L P jwt arg opts = verify L P jwt (Some (KeyList [k])) opts"
    if "jwks P = None" "arg = Some (SingleKey k)" for k
  proof -
    have "keys_of P arg = keys_of P (Some (KeyList [k]))"
      using that by (simp add: keys_of_def)
    from verify_cong [OF verifySignature_same_keys [OF this]]
    have same: "verify L P jwt arg opts = verify L P jwt (Some (KeyList [k])) opts" by simp
    have "verify_calls L P jwt arg opts = [KeyMaterial (key k)]"
      using that
      by (simp add: verify_calls_def verifySignature_keys [where ks = "[k]"] keys_of_def
            split: sum.split)
    with same show ?thesis by simp
  qed
  have many: "set (verify_calls L P jwt arg opts) \<subseteq> (\<lambda>x. KeyMaterial (key x)) ` set ks"
    if "jwks P = None" "arg = Some (KeyList ks)" for ks
    using that by (intro verify_calls_subset) (simp_all add: keys_of_def)
  have static: "verify L P jwt arg opts = verify L P jwt (Some (KeyList ks)) opts \<and>
         verify_calls L P jwt arg opts = verify_calls L P jwt (Some (KeyList ks)) opts"
    if "arg = None" "verificationKeys (parser_options P) = Some ks" for ks
  proof -
    have "keys_of P arg = keys_of P (Some (KeyList ks))"
      using that by (simp add: keys_of_def)
    from verify_cong [OF verifySignature_same_keys [OF this]] show ?thesis .
  qed
  have no_method: "verify_calls L P jwt arg opts = [] \<and>
         verify L P jwt arg opts =
           Inr \<lparr> valid = False, payload = None,
                 error = Some ''No verification key or JWKS URL provided'',
                 errors = None \<rparr>"
    if "jwks P = None" "arg = None" "verificationKeys (parser_options P) = None"
  proof -
    from that have k: "keys_of P arg = None" by (simp add: keys_of_def)
    from verifySignature_none [OF that(1) k]
    have sig: "verifySignature L P jwt arg (mergedOptions_of P opts) =
        (Inl (Error ''No verification key or JWKS URL provided''), [])" .
    then have "fst (verifySignature L P jwt arg (mergedOptions_of P opts)) =
        Inl (Error ''No verification key or JWKS URL provided'')" by simp
    from verify_signature_fails [OF this] sig show ?thesis
      by (simp add: verify_calls_def)
  qed
  from remote single many static no_method show ?thesis by blast
qed

lemma parser_jwks_constructed:
  "new_SecEventParser lib0
     (no_parser_options \<lparr> jwksUrl := Some ''https://idp.example/jwks.json'' \<rparr>) =
   Inr parser_jwks"
  by (simp add: new_SecEventParser_def lib0_def new_URL0_def parser_jwks_def jwks0_def
        no_parser_options_def)

lemma verify_parser_jwks:
  "verify lib0 parser_jwks ''t0'' arg None =
     Inr \<lparr> valid = False, payload = None,
           error = Some ''no applicable key found in the JSON Web Key Set'',
           errors = None \<rparr>"
proof -
  have "fst (verifySignature lib0 parser_jwks ''t0'' arg (mergedOptions_of parser_jwks None))
          = Inl (Error ''no applicable key found in the JSON Web Key Set'')"
    by (simp add: verifySignature_def parser_jwks_def lib0_def jwtVerify0_def Let_def)
  from verify_signature_fails [OF this] show ?thesis by simp
qed

theorem key_source_selection_witness:
  "verify_calls lib0 parser_jwks ''t0'' None None = [RemoteKeys jwks0] \<and>
   verify_calls lib0 parser0 ''t0'' (Some (SingleKey key_secret)) None =
     [KeyMaterial (Str ''secret'')] \<and>
   verify lib0 parser0 ''t0'' None None =
     Inr \<lparr> valid = False, payload = None,
           error = Some ''No verification key or JWKS URL provided'', errors = None \<rparr>"
  using key_source_selection [of parser_jwks lib0 "''t0''" None None]
    key_source_selection [of parser0 lib0 "''t0''" "Some (SingleKey key_secret)" None]
    key_source_selection [of parser0 lib0 "''t0''" None None]
  by (simp add: parser_jwks_def parser0_def no_parser_options_def key_secret_def)

text \<open>
  Claim C2 as stated fails: on a parser with a remote key-set resolver a key given as
  argument is not used. The token verifies with that key on a parser without resolver,
  and \<open>jwtVerify\<close> is called with the resolver alone, and fails, on the parser with
  one.
\<close>

theorem explicit_key_ignored_with_jwks:
  "verify lib0 parser0 ''t0'' (Some (SingleKey key_secret)) None =
     Inr \<lparr> valid = True, payload = Some payload0, error = None, errors = None \<rparr> \<and>
   verify_calls lib0 parser_jwks ''t0'' (Some (SingleKey key_secret)) None =
     [RemoteKeys jwks0] \<and>
   verify lib0 parser_jwks ''t0'' (Some (SingleKey key_secret)) None =
     Inr \<lparr> valid = False, payload = None,
           error = Some ''no applicable key found in the JSON Web Key Set'',
           errors = None \<rparr>"
proof -
  have "verify_calls lib0 parser_jwks ''t0'' (Some (SingleKey key_secret)) None =
     [RemoteKeys jwks0]"
    by (simp add: verify_calls_def verifySignature_def parser_jwks_def Let_def)
  then show ?thesis
    by (simp add: verify_parser0_secret verify_parser_jwks)
qed

lemma verifySignature_first_success:
  assumes "jwks P = None"
    and "\<forall>x \<in> set pre. key_fails L P jwt opts x"
    and "jwtVerify L jwt (KeyMaterial (key k)) (jwtOptions_of (mergedOptions_of P opts)) = Inr p"
  shows "verifySignature L P jwt (Some (KeyList (pre @ k # post))) (mergedOptions_of P opts) =
           (Inr p, map (\<lambda>x. KeyMaterial (key x)) (pre @ [k]))"
proof -
  let ?v = "\<lambda>k. jwtVerify L jwt k (jwtOptions_of (mergedOptions_of P opts))"
  from assms(2) have "\<forall>x \<in> set pre. isl (?v (KeyMaterial (key x)))"
    by (simp add: key_fails_def)
  from tryKeys_success [of pre ?v k p post None "[]", OF this assms(3)]
  obtain le' where "tryKeys ?v (pre @ k # post) None [] =
      (Some p, le', map (\<lambda>x. KeyMaterial (key x)) (pre @ [k]))"
    by auto
  with assms(1) show ?thesis
    by (simp add: verifySignature_keys [where ks = "pre @ k # post"] keys_of_def)
qed

lemma verifySignature_all_fail:
  assumes "jwks P = None" and "ks \<noteq> []"
    and "\<forall>x \<in> set ks. key_fails L P jwt opts x"
    and "jwtVerify L jwt (KeyMaterial (key (last ks))) (jwtOptions_of (mergedOptions_of P opts))
           = Inl e"
  shows "verifySignature L P jwt (Some (KeyList ks)) (mergedOptions_of P opts) =
           (Inl (if truthy_thrown e then e
                 else Error ''Verification failed with all provided keys''),
            map (\<lambda>x. KeyMaterial (key x)) ks)"
proof -
  let ?v = "\<lambda>k. jwtVerify L jwt k (jwtOptions_of (mergedOptions_of P opts))"
  from assms(3) have "\<forall>x \<in> set ks. isl (?v (KeyMaterial (key x)))"
    by (simp add: key_fails_def)
  from tryKeys_all_fail [of ks ?v None "[]", OF this] assms(2,4)
  have "tryKeys ?v ks None [] = (None, Some e, map (\<lambda>x. KeyMaterial (key x)) ks)"
    by simp
  with assms(1) show ?thesis
    by (simp add: verifySignature_keys [where ks = ks] keys_of_def)
qed

lemma verifySignature_no_candidates:
  assumes "jwks P = None"
  shows "verifySignature L P jwt (Some (KeyList [])) (mergedOptions_of P opts) =
           (Inl (Error ''Verification failed with all provided keys''), [])"
  using assms by (simp add: verifySignature_keys [where ks = "[]"] keys_of_def)

text \<open>
  Claim C4, as amended. On a parser without remote key-set resolver, the candidate keys
  passed to \<open>verify\<close> are tried in the order given. If the keys before some key all
  fail and that key verifies, \<open>jwtVerify\<close> is called with exactly the keys up to and
  including it, its payload is the payload, and the outcome is that of \<open>verify\<close> with
  this key alone. If every key of a non-empty sequence fails, every key is tried and
  \<open>verify\<close> fails with the message of the value thrown for the last key (the generic
  failure if that value is falsy, \<open>Unknown error\<close> if it is no \<open>Error\<close>). If the
  sequence is empty, nothing is tried and \<open>verify\<close> fails with the generic failure.
\<close>

theorem key_trial_order:
  assumes "jwks P = None"
  shows
    "(\<forall>pre k post p.
        ks = pre @ k # post \<and> (\<forall>x \<in> set pre. key_fails L P jwt opts x) \<and>
        jwtVerify L jwt (KeyMaterial (key k)) (jwtOptions_of (mergedOptions_of P opts)) = Inr p
        \<longrightarrow>
        verify_calls L P jwt (Some (KeyList ks)) opts =
          map (\<lambda>x. KeyMaterial (key x)) (pre @ [k]) \<and>
        fst (verifySignature L P jwt (Some (KeyList ks)) (mergedOptions_of P opts)) = Inr p \<and>
        verify L P jwt (Some (KeyList ks)) opts = verify L P jwt (Some (SingleKey k)) opts) \<and>
     (\<forall>e. ks \<noteq> [] \<and> (\<forall>x \<in> set ks. key_fails L P jwt opts x) \<and>
        jwtVerify L jwt (KeyMaterial (key (last ks))) (jwtOptions_of (mergedOptions_of P opts))
          = Inl e
        \<longrightarrow>
        verify_calls L P jwt (Some (KeyList ks)) opts = map (\<lambda>x. KeyMaterial (key x)) ks \<and>
        verify L P jwt (Some (KeyList ks)) opts =
          Inr \<lparr> valid = False, payload = None,
                error = Some (if truthy_thrown e then message_or ''Unknown error'' e
                              else ''Verification failed with all provided keys''),
                errors = None \<rparr>) \<and>
     (ks = [] \<longrightarrow>
        verify_calls L P jwt (Some (KeyList ks)) opts = [] \<and>
        verify L P jwt (Some (KeyList ks)) opts =
          Inr \<lparr> valid = False, payload = None,
                error = Some ''Verification failed with all provided keys'',
                errors = None \<rparr>)"
proof -
  have first: "verify_calls L P jwt (Some (KeyList ks)) opts =
          map (\<lambda>x. KeyMaterial (key x)) (pre @ [k]) \<and>
        fst (verifySignature L P jwt (Some (KeyList ks)) (mergedOptions_of P opts)) = Inr p \<and>
        verify L P jwt (Some (KeyList ks)) opts = verify L P jwt (Some (SingleKey k)) opts"
    if split: "ks = pre @ k # post" and pre: "\<forall>x \<in> set pre. key_fails L P jwt opts x"
      and ok: "jwtVerify L jwt (KeyMaterial (key k)) (jwtOptions_of (mergedOptions_of P opts))
                 = Inr p"
    for pre k post p
  proof -
    note many = verifySignature_first_success [OF assms pre ok, of post]
    have "verifySignature L P jwt (Some (KeyList [k])) (mergedOptions_of P opts) =
            (Inr p, [KeyMaterial (key k)])"
      using verifySignature_first_success [OF assms _ ok, of "[]" "[]"] by simp
    moreover have "keys_of P (Some (SingleKey k)) = keys_of P (Some (KeyList [k]))"
      by (simp add: keys_of_def)
    ultimately have one:
      "fst (verifySignature L P jwt (Some (SingleKey k)) (mergedOptions_of P opts)) = Inr p"
      using verifySignature_same_keys [of P "Some (SingleKey k)" "Some (KeyList [k])"] by simp
    from many have sig:
      "fst (verifySignature L P jwt (Some (KeyList ks)) (mergedOptions_of P opts)) = Inr p"
      by (simp add: split)
    from verify_after_signature [OF sig] verify_after_signature [OF one]
    have "verify L P jwt (Some (KeyList ks)) opts = verify L P jwt (Some (SingleKey k)) opts"
      by simp
    with many sig show ?thesis by (simp add: verify_calls_def split)
  qed
  have exhausted: "verify_calls L P jwt (Some (KeyList ks)) opts =
          map (\<lambda>x. KeyMaterial (key x)) ks \<and>
        verify L P jwt (Some (KeyList ks)) opts =
          Inr \<lparr> valid = False, payload = None,
                error = Some (if truthy_thrown e then message_or ''Unknown error'' e
                              else ''Verification failed with all provided keys''),
                errors = None \<rparr>"
    if "ks \<noteq> []" "\<forall>x \<in> set ks. key_fails L P jwt opts x"
      "jwtVerify L jwt (KeyMaterial (key (last ks))) (jwtOptions_of (mergedOptions_of P opts))
         = Inl e"
    for e
  proof -
    note sig = verifySignature_all_fail [OF assms that]
    then have "fst (verifySignature L P jwt (Some (KeyList ks)) (mergedOptions_of P opts)) =
        Inl (if truthy_thrown e then e
             else Error ''Verification failed with all provided keys'')"
      by simp
    from verify_signature_fails [OF this] sig show ?thesis
      by (simp add: verify_calls_def)
  qed
  have empty: "verify_calls L P jwt (Some (KeyList ks)) opts = [] \<and>
        verify L P jwt (Some (KeyList ks)) opts =
          Inr \<lparr> valid = False, payload = None,
                error = Some ''Verification failed with all provided keys'',
                errors = None \<rparr>"
    if "ks = []"
  proof -
    note sig = verifySignature_no_candidates [OF assms, of L jwt opts]
    then have "fst (verifySignature L P jwt (Some (KeyList [])) (mergedOptions_of P opts)) =
        Inl (Error ''Verification failed with all provided keys'')"
      by simp
    from verify_signature_fails [OF this] sig that show ?thesis
      by (simp add: verify_calls_def)
  qed
  from first exhausted empty show ?thesis by blast
qed

theorem key_trial_order_witness:
  "verify_calls lib0 parser0 ''t0''
     (Some (KeyList [key_wrong1, key_wrong2, key_secret, key_wrong1])) None =
     [KeyMaterial (Str ''wrong-1''), KeyMaterial (Str ''wrong-2''),
      KeyMaterial (Str ''secret'')] \<and>
   verify lib0 parser0 ''t0''
     (Some (KeyList [key_wrong1, key_wrong2, key_secret, key_wrong1])) None =
     Inr \<lparr> valid = True, payload = Some payload0, error = None, errors = None \<rparr> \<and>
   verify lib0 parser0 ''t0'' (Some (KeyList [key_wrong1, key_wrong2])) None =
     Inr \<lparr> valid = False, payload = None,
           error = Some ''signature verification failed'', errors = None \<rparr> \<and>
   verify lib0 parser0 ''t0'' (Some (KeyList [])) None =
     Inr \<lparr> valid = False, payload = None,
           error = Some ''Verification failed with all provided keys'', errors = None \<rparr>"
proof -
  have none: "jwks parser0 = None" by (simp add: parser0_def)
  have fails: "key_fails lib0 parser0 ''t0'' None key_wrong1"
    "key_fails lib0 parser0 ''t0'' None key_wrong2"
    by (simp_all add: key_fails_def lib0_def jwtVerify0_def key_wrong1_def key_wrong2_def)
  have ok: "jwtVerify lib0 ''t0'' (KeyMaterial (key key_secret))
              (jwtOptions_of (mergedOptions_of parser0 None)) = Inr payload0"
    by (simp add: lib0_def jwtVerify0_def key_secret_def decodeJwt0_def)
  have last: "jwtVerify lib0 ''t0'' (KeyMaterial (key (last [key_wrong1, key_wrong2])))
              (jwtOptions_of (mergedOptions_of parser0 None)) =
                Inl (Error ''signature verification failed'')"
    by (simp add: lib0_def jwtVerify0_def key_wrong2_def)
  from key_trial_order
         [OF none, of "[key_wrong1, key_wrong2, key_secret, key_wrong1]" lib0 "''t0''" None]
       fails ok
  have a: "verify_calls lib0 parser0 ''t0''
             (Some (KeyList [key_wrong1, key_wrong2, key_secret, key_wrong1])) None =
           map (\<lambda>x. KeyMaterial (key x)) ([key_wrong1, key_wrong2] @ [key_secret]) \<and>
         verify lib0 parser0 ''t0''
             (Some (KeyList [key_wrong1, key_wrong2, key_secret, key_wrong1])) None =
           verify lib0 parser0 ''t0'' (Some (SingleKey key_secret)) None"
    by (elim conjE allE [where x = "[key_wrong1, key_wrong2]"]) simp
  from key_trial_order [OF none, of "[key_wrong1, key_wrong2]" lib0 "''t0''" None] fails last
  have b: "verify lib0 parser0 ''t0'' (Some (KeyList [key_wrong1, key_wrong2])) None =
     Inr \<lparr> valid = False, payload = None,
           error = Some ''signature verification failed'', errors = None \<rparr>"
    by simp
  from key_trial_order [OF none, of "[]" lib0 "''t0''" None]
  have c: "verify lib0 parser0 ''t0'' (Some (KeyList [])) None =
     Inr \<lparr> valid = False, payload = None,
           error = Some ''Verification failed with all provided keys'', errors = None \<rparr>"
    by simp
  from a b c verify_parser0_secret show ?thesis
    by (simp add: key_wrong1_def key_wrong2_def key_secret_def)
qed

text \<open>
  Claim C4 as stated fails: on a parser with a remote key-set resolver none of the
  candidate keys passed to \<open>verify\<close> is tried, and a token that the second candidate
  verifies is reported as invalid.
\<close>

theorem candidate_keys_not_tried_with_jwks:
  "verify_calls lib0 parser_jwks ''t0'' (Some (KeyList [key_wrong1, key_secret])) None =
     [RemoteKeys jwks0] \<and>
   verify lib0 parser_jwks ''t0'' (Some (KeyList [key_wrong1, key_secret])) None =
     Inr \<lparr> valid = False, payload = None,
           error = Some ''no applicable key found in the JSON Web Key Set'',
           errors = None \<rparr>"
proof -
  have "verify_calls lib0 parser_jwks ''t0'' (Some (KeyList [key_wrong1, key_secret])) None =
     [RemoteKeys jwks0]"
    by (simp add: verify_calls_def verifySignature_def parser_jwks_def Let_def)
  then show ?thesis
    by (simp add: verify_parser_jwks)
qed

lemma verifySignature_keys_of:
  "keys_of P arg = Some ks \<Longrightarrow>
   verifySignature L P jwt arg m = verifySignature L P jwt (Some (KeyList ks)) m"
  by (rule verifySignature_same_keys) (simp add: keys_of_def)

lemma verifySignature_not_all_fail:
  assumes none: "jwks P = None" and keys: "keys_of P arg = Some ks"
    and sig: "fst (verifySignature L P jwt arg (mergedOptions_of P opts)) = Inr p"
  shows "\<exists>x \<in> set ks. \<not> key_fails L P jwt opts x"
proof (rule ccontr)
  assume "\<not> (\<exists>x \<in> set ks. \<not> key_fails L P jwt opts x)"
  then have all: "\<forall>x \<in> set ks. key_fails L P jwt opts x" by simp
  show False
  proof (cases "ks = []")
    case True
    with verifySignature_no_candidates [OF none, of L jwt opts]
      verifySignature_keys_of [OF keys, of L jwt "mergedOptions_of P opts"] sig
    show False by simp
  next
    case False
    from all False have "key_fails L P jwt opts (last ks)" by simp
    then obtain e where
      "jwtVerify L jwt (KeyMaterial (key (last ks))) (jwtOptions_of (mergedOptions_of P opts))
         = Inl e"
      by (cases "jwtVerify L jwt (KeyMaterial (key (last ks)))
                   (jwtOptions_of (mergedOptions_of P opts))")
         (auto simp add: key_fails_def)
    from verifySignature_all_fail [OF none False all this]
      verifySignature_keys_of [OF keys, of L jwt "mergedOptions_of P opts"] sig
    show False by simp
  qed
qed

lemma verifySignature_payload_iff:
  "fst (verifySignature L P jwt arg (mergedOptions_of P opts)) = Inr p \<longleftrightarrow>
     (\<exists>j. jwks P = Some j \<and>
          jwtVerify L jwt (RemoteKeys j) (jwtOptions_of (mergedOptions_of P opts)) = Inr p) \<or>
     (jwks P = None \<and>
      (\<exists>pre k post. keys_of P arg = Some (pre @ k # post) \<and>
         (\<forall>x \<in> set pre. key_fails L P jwt opts x) \<and>
         jwtVerify L jwt (KeyMaterial (key k)) (jwtOptions_of (mergedOptions_of P opts))
           = Inr p))"
proof (cases "jwks P")
  case (Some j)
  then show ?thesis by (simp add: verifySignature_jwks)
next
  case None
  show ?thesis
  proof
    assume sig: "fst (verifySignature L P jwt arg (mergedOptions_of P opts)) = Inr p"
    from sig None obtain ks where keys: "keys_of P arg = Some ks"
      by (cases "keys_of P arg") (auto simp add: verifySignature_none)
    from verifySignature_not_all_fail [OF None keys sig]
    have "\<exists>x \<in> set ks. \<not> key_fails L P jwt opts x" .
    from split_list_first_prop [OF this]
    obtain pre k post where split: "ks = pre @ k # post"
      and ok: "\<not> key_fails L P jwt opts k"
      and pre: "\<forall>x \<in> set pre. \<not> \<not> key_fails L P jwt opts x"
      by blast
    from ok obtain p' where p':
      "jwtVerify L jwt (KeyMaterial (key k)) (jwtOptions_of (mergedOptions_of P opts)) = Inr p'"
      by (cases "jwtVerify L jwt (KeyMaterial (key k))
                   (jwtOptions_of (mergedOptions_of P opts))")
         (auto simp add: key_fails_def)
    from pre have pre': "\<forall>x \<in> set pre. key_fails L P jwt opts x" by simp
    from verifySignature_first_success [OF None pre' p', of post]
      verifySignature_keys_of [OF keys, of L jwt "mergedOptions_of P opts"] sig split
    have "p' = p" by simp
    with None keys split pre' p' show
      "(\<exists>j. jwks P = Some j \<and>
          jwtVerify L jwt (RemoteKeys j) (jwtOptions_of (mergedOptions_of P opts)) = Inr p) \<or>
       (jwks P = None \<and>
        (\<exists>pre k post. keys_of P arg = Some (pre @ k # post) \<and>
           (\<forall>x \<in> set pre. key_fails L P jwt opts x) \<and>
           jwtVerify L jwt (KeyMaterial (key k)) (jwtOptions_of (mergedOptions_of P opts))
             = Inr p))"
      by blast
  next
    assume "(\<exists>j. jwks P = Some j \<and>
          jwtVerify L jwt (RemoteKeys j) (jwtOptions_of (mergedOptions_of P opts)) = Inr p) \<or>
       (jwks P = None \<and>
        (\<exists>pre k post. keys_of P arg = Some (pre @ k # post) \<and>
           (\<forall>x \<in> set pre. key_fails L P jwt opts x) \<and>
           jwtVerify L jwt (KeyMaterial (key k)) (jwtOptions_of (mergedOptions_of P opts))
             = Inr p))"
    with None obtain pre k post where keys: "keys_of P arg = Some (pre @ k # post)"
      and pre: "\<forall>x \<in> set pre. key_fails L P jwt opts x"
      and ok: "jwtVerify L jwt (KeyMaterial (key k)) (jwtOptions_of (mergedOptions_of P opts))
                 = Inr p"
      by auto
    from verifySignature_first_success [OF None pre ok, of post]
      verifySignature_keys_of [OF keys, of L jwt "mergedOptions_of P opts"]
    show "fst (verifySignature L P jwt arg (mergedOptions_of P opts)) = Inr p" by simp
  qed
qed

text \<open>
  Claim C3, as amended. Whatever the token, the key argument, the options and the
  behaviour of \<open>jwtVerify\<close>, \<open>verify\<close> returns a result and throws nothing. The
  result is valid exactly when \<open>jwtVerify\<close> gives a payload, on the resolver of a
  parser that has one and else on the first candidate key that does not throw, and the
  validation of that payload finds no error. What \<open>jwtVerify\<close> throws on the resolver
  is reported as \<open>{valid: false, error: message}\<close>; so is what it throws on the last
  candidate key when it throws on every candidate (the generic failure if the value
  thrown is falsy). What it throws on a candidate key before one that verifies is not
  reported: the result is the one the validation of the verified payload gives.
\<close>

theorem verify_never_throws:
  "\<exists>r. verify L P jwt arg opts = Inr r \<and>
     (valid r \<longleftrightarrow>
        (\<exists>p. validateSecEvent L p (mergedOptions_of P opts) = [] \<and>
           ((\<exists>j. jwks P = Some j \<and>
               jwtVerify L jwt (RemoteKeys j) (jwtOptions_of (mergedOptions_of P opts))
                 = Inr p) \<or>
            (jwks P = None \<and>
             (\<exists>pre k post. keys_of P arg = Some (pre @ k # post) \<and>
                (\<forall>x \<in> set pre. key_fails L P jwt opts x) \<and>
                jwtVerify L jwt (KeyMaterial (key k))
                  (jwtOptions_of (mergedOptions_of P opts)) = Inr p))))) \<and>
     (\<forall>j e. jwks P = Some j \<and>
        jwtVerify L jwt (RemoteKeys j) (jwtOptions_of (mergedOptions_of P opts)) = Inl e \<longrightarrow>
        r = \<lparr> valid = False, payload = None,
              error = Some (message_or ''Unknown error'' e), errors = None \<rparr>) \<and>
     (\<forall>ks e. jwks P = None \<and> keys_of P arg = Some ks \<and> ks \<noteq> [] \<and>
        (\<forall>x \<in> set ks. key_fails L P jwt opts x) \<and>
        jwtVerify L jwt (KeyMaterial (key (last ks)))
          (jwtOptions_of (mergedOptions_of P opts)) = Inl e \<longrightarrow>
        r = \<lparr> valid = False, payload = None,
              error = Some (if truthy_thrown e then message_or ''Unknown error'' e
                            else ''Verification failed with all provided keys''),
              errors = None \<rparr>) \<and>
     (\<forall>pre k post p. jwks P = None \<and> keys_of P arg = Some (pre @ k # post) \<and>
        (\<forall>x \<in> set pre. key_fails L P jwt opts x) \<and>
        jwtVerify L jwt (KeyMaterial (key k)) (jwtOptions_of (mergedOptions_of P opts))
          = Inr p \<longrightarrow>
        r = (if validateSecEvent L p (mergedOptions_of P opts) = []
             then \<lparr> valid = True, payload = Some p, error = None, errors = None \<rparr>
             else \<lparr> valid = False, payload = None,
                    error = Some (join ''; ''
                                    (validateSecEvent L p (mergedOptions_of P opts))),
                    errors = Some (validateSecEvent L p (mergedOptions_of P opts)) \<rparr>))"
proof -
  let ?m = "mergedOptions_of P opts"
  let ?sig = "fst (verifySignature L P jwt arg ?m)"
  have remote: "?sig = Inl e"
    if "jwks P = Some j" "jwtVerify L jwt (RemoteKeys j) (jwtOptions_of ?m) = Inl e" for j e
    using that by (simp add: verifySignature_jwks)
  have exhausted: "?sig = Inl (if truthy_thrown e then e
                               else Error ''Verification failed with all provided keys'')"
    if "jwks P = None" "keys_of P arg = Some ks" "ks \<noteq> []"
      "\<forall>x \<in> set ks. key_fails L P jwt opts x"
      "jwtVerify L jwt (KeyMaterial (key (last ks))) (jwtOptions_of ?m) = Inl e"
    for ks e
    using verifySignature_all_fail [OF that(1,3,4,5)]
      verifySignature_keys_of [OF that(2), of L jwt ?m]
    by simp
  have first: "?sig = Inr p"
    if "jwks P = None" "keys_of P arg = Some (pre @ k # post)"
      "\<forall>x \<in> set pre. key_fails L P jwt opts x"
      "jwtVerify L jwt (KeyMaterial (key k)) (jwtOptions_of ?m) = Inr p"
    for pre k post p
    using verifySignature_first_success [OF that(1,3,4), of post]
      verifySignature_keys_of [OF that(2), of L jwt ?m]
    by simp
  show ?thesis
  proof (cases ?sig)
    case (Inl e)
    note res = verify_signature_fails [OF Inl]
    from Inl have no_payload: "\<And>p. ?sig \<noteq> Inr p" by simp
    have a: "\<not> (\<exists>p. validateSecEvent L p ?m = [] \<and>
           ((\<exists>j. jwks P = Some j \<and> jwtVerify L jwt (RemoteKeys j) (jwtOptions_of ?m) = Inr p) \<or>
            (jwks P = None \<and>
             (\<exists>pre k post. keys_of P arg = Some (pre @ k # post) \<and>
                (\<forall>x \<in> set pre. key_fails L P jwt opts x) \<and>
                jwtVerify L jwt (KeyMaterial (key k)) (jwtOptions_of ?m) = Inr p))))"
      using no_payload verifySignature_payload_iff [of L P jwt arg opts] by blast
    have b: "e' = e"
      if "jwks P = Some j" "jwtVerify L jwt (RemoteKeys j) (jwtOptions_of ?m) = Inl e'"
      for j e'
      using remote [OF that] Inl by simp
    have c: "(if truthy_thrown e' then e'
              else Error ''Verification failed with all provided keys'') = e"
      if "jwks P = None" "keys_of P arg = Some ks" "ks \<noteq> []"
        "\<forall>x \<in> set ks. key_fails L P jwt opts x"
        "jwtVerify L jwt (KeyMaterial (key (last ks))) (jwtOptions_of ?m) = Inl e'"
      for ks e'
      using exhausted [OF that] Inl by simp
    have c': "message_or ''Unknown error'' e =
        (if truthy_thrown e' then message_or ''Unknown error'' e'
         else ''Verification failed with all provided keys'')"
      if "jwks P = None" "keys_of P arg = Some ks" "ks \<noteq> []"
        "\<forall>x \<in> set ks. key_fails L P jwt opts x"
        "jwtVerify L jwt (KeyMaterial (key (last ks))) (jwtOptions_of ?m) = Inl e'"
      for ks e'
      using c [OF that] by (cases "truthy_thrown e'") auto
    have d: False
      if "jwks P = None" "keys_of P arg = Some (pre @ k # post)"
        "\<forall>x \<in> set pre. key_fails L P jwt opts x"
        "jwtVerify L jwt (KeyMaterial (key k)) (jwtOptions_of ?m) = Inr p"
      for pre k post p
      using first [OF that] Inl by simp
    from res a b c' d show ?thesis
      by (intro exI [where x = "\<lparr> valid = False, payload = None,
             error = Some (message_or ''Unknown error'' e), errors = None \<rparr>"])
         (simp, blast)
  next
    case (Inr p)
    note res = verify_after_signature [OF Inr]
    let ?r = "if validateSecEvent L p ?m = []
          then \<lparr> valid = True, payload = Some p, error = None, errors = None \<rparr>
          else \<lparr> valid = False, payload = None,
                 error = Some (join ''; '' (validateSecEvent L p ?m)),
                 errors = Some (validateSecEvent L p ?m) \<rparr>"
    have unique: "p' = p"
      if "(\<exists>j. jwks P = Some j \<and>
               jwtVerify L jwt (RemoteKeys j) (jwtOptions_of ?m) = Inr p') \<or>
            (jwks P = None \<and>
             (\<exists>pre k post. keys_of P arg = Some (pre @ k # post) \<and>
                (\<forall>x \<in> set pre. key_fails L P jwt opts x) \<and>
                jwtVerify L jwt (KeyMaterial (key k)) (jwtOptions_of ?m) = Inr p'))"
      for p'
      using that verifySignature_payload_iff [of L P jwt arg opts p'] Inr by simp
    have here: "(\<exists>j. jwks P = Some j \<and>
               jwtVerify L jwt (RemoteKeys j) (jwtOptions_of ?m) = Inr p) \<or>
            (jwks P = None \<and>
             (\<exists>pre k post. keys_of P arg = Some (pre @ k # post) \<and>
                (\<forall>x \<in> set pre. key_fails L P jwt opts x) \<and>
                jwtVerify L jwt (KeyMaterial (key k)) (jwtOptions_of ?m) = Inr p))"
      using verifySignature_payload_iff [of L P jwt arg opts p] Inr by simp
    have a: "valid ?r \<longleftrightarrow>
        (\<exists>p. validateSecEvent L p ?m = [] \<and>
           ((\<exists>j. jwks P = Some j \<and> jwtVerify L jwt (RemoteKeys j) (jwtOptions_of ?m) = Inr p) \<or>
            (jwks P = None \<and>
             (\<exists>pre k post. keys_of P arg = Some (pre @ k # post) \<and>
                (\<forall>x \<in> set pre. key_fails L P jwt opts x) \<and>
                jwtVerify L jwt (KeyMaterial (key k)) (jwtOptions_of ?m) = Inr p))))"
    proof (cases "validateSecEvent L p ?m = []")
      case True
      with here show ?thesis by auto
    next
      case False
      have "\<not> (\<exists>p. validateSecEvent L p ?m = [] \<and>
           ((\<exists>j. jwks P = Some j \<and> jwtVerify L jwt (RemoteKeys j) (jwtOptions_of ?m) = Inr p) \<or>
            (jwks P = None \<and>
             (\<exists>pre k post. keys_of P arg = Some (pre @ k # post) \<and>
                (\<forall>x \<in> set pre. key_fails L P jwt opts x) \<and>
                jwtVerify L jwt (KeyMaterial (key k)) (jwtOptions_of ?m) = Inr p))))"
      proof
        assume "\<exists>p. validateSecEvent L p ?m = [] \<and>
           ((\<exists>j. jwks P = Some j \<and> jwtVerify L jwt (RemoteKeys j) (jwtOptions_of ?m) = Inr p) \<or>
            (jwks P = None \<and>
             (\<exists>pre k post. keys_of P arg = Some (pre @ k # post) \<and>
                (\<forall>x \<in> set pre. key_fails L P jwt opts x) \<and>
                jwtVerify L jwt (KeyMaterial (key k)) (jwtOptions_of ?m) = Inr p)))"
        then obtain p' where ok: "validateSecEvent L p' ?m = []"
          and got: "(\<exists>j. jwks P = Some j \<and>
               jwtVerify L jwt (RemoteKeys j) (jwtOptions_of ?m) = Inr p') \<or>
            (jwks P = None \<and>
             (\<exists>pre k post. keys_of P arg = Some (pre @ k # post) \<and>
                (\<forall>x \<in> set pre. key_fails L P jwt opts x) \<and>
                jwtVerify L jwt (KeyMaterial (key k)) (jwtOptions_of ?m) = Inr p'))"
          by blast
        from unique [OF got] ok False show False by simp
      qed
      with False show ?thesis by simp
    qed
    have b: False
      if "jwks P = Some j" "jwtVerify L jwt (RemoteKeys j) (jwtOptions_of ?m) = Inl e'"
      for j e'
      using remote [OF that] Inr by simp
    have c: False
      if "jwks P = None" "keys_of P arg = Some ks" "ks \<noteq> []"
        "\<forall>x \<in> set ks. key_fails L P jwt opts x"
        "jwtVerify L jwt (KeyMaterial (key (last ks))) (jwtOptions_of ?m) = Inl e'"
      for ks e'
      using exhausted [OF that] Inr by simp
    have d: "p' = p"
      if "jwks P = None" "keys_of P arg = Some (pre @ k # post)"
        "\<forall>x \<in> set pre. key_fails L P jwt opts x"
        "jwtVerify L jwt (KeyMaterial (key k)) (jwtOptions_of ?m) = Inr p'"
      for pre k post p'
      using first [OF that] Inr by simp
    from res a b c d show ?thesis
      by (intro exI [where x = ?r]) (simp only: simp_thms, blast)
  qed
qed

lemma verify_parser0_two_wrong:
  "verify lib0 parser0 ''t0'' (Some (KeyList [key_wrong1, key_wrong2])) None =
     Inr \<lparr> valid = False, payload = None,
           error = Some ''signature verification failed'', errors = None \<rparr>"
proof -
  have "fst (verifySignature lib0 parser0 ''t0'' (Some (KeyList [key_wrong1, key_wrong2]))
               (mergedOptions_of parser0 None)) = Inl (Error ''signature verification failed'')"
    by (simp add: verifySignature_def keys_of_def parser0_def lib0_def jwtVerify0_def
          key_wrong1_def key_wrong2_def)
  from verify_signature_fails [OF this] show ?thesis by simp
qed

lemma verify_parser0_wrong_then_secret:
  "verify lib0 parser0 ''t0'' (Some (KeyList [key_wrong1, key_secret])) None =
     Inr \<lparr> valid = True, payload = Some payload0, error = None, errors = None \<rparr>"
proof -
  have "fst (verifySignature lib0 parser0 ''t0'' (Some (KeyList [key_wrong1, key_secret]))
               (mergedOptions_of parser0 None)) = Inr payload0"
    by (simp add: verifySignature_def keys_of_def parser0_def lib0_def jwtVerify0_def
          decodeJwt0_def key_wrong1_def key_secret_def)
  from verify_after_signature [OF this] show ?thesis
    by (simp add: mergedOptions_parser0 validate_payload0)
qed

theorem verify_never_throws_witness:
  "verify lib0 parser0 ''t0'' (Some (SingleKey key_secret)) None =
     Inr \<lparr> valid = True, payload = Some payload0, error = None, errors = None \<rparr> \<and>
   verify lib0 parser0 ''t0'' (Some (SingleKey key_wrong1)) None =
     Inr \<lparr> valid = False, payload = None,
           error = Some ''signature verification failed'', errors = None \<rparr> \<and>
   verify lib0 parser0 ''t0'' (Some (KeyList [key_wrong1, key_wrong2])) None =
     Inr \<lparr> valid = False, payload = None,
           error = Some ''signature verification failed'', errors = None \<rparr> \<and>
   verify lib0 parser_jwks ''t0'' None None =
     Inr \<lparr> valid = False, payload = None,
           error = Some ''no applicable key found in the JSON Web Key Set'',
           errors = None \<rparr>"
  using verify_never_throws [of lib0 parser0 "''t0''" "Some (SingleKey key_secret)" None]
    verify_never_throws [of lib0 parser0 "''t0''" "Some (SingleKey key_wrong1)" None]
    verify_never_throws [of lib0 parser0 "''t0''" "Some (KeyList [key_wrong1, key_wrong2])" None]
    verify_never_throws [of lib0 parser_jwks "''t0''" None None]
    verify_parser0_secret verify_parser0_wrong verify_parser0_two_wrong
    verify_parser_jwks [of None]
  by simp

text \<open>
  Claim C3 as stated fails: \<open>jwtVerify\<close> throws on the first of two candidate keys,
  and the result of \<open>verify\<close> is valid and reports nothing of it.
\<close>

theorem swallowed_verifier_exception:
  "jwtVerify lib0 ''t0'' (KeyMaterial (key key_wrong1))
     (jwtOptions_of (mergedOptions_of parser0 None)) =
     Inl (Error ''signature verification failed'') \<and>
   verify_calls lib0 parser0 ''t0'' (Some (KeyList [key_wrong1, key_secret])) None =
     [KeyMaterial (Str ''wrong-1''), KeyMaterial (Str ''secret'')] \<and>
   verify lib0 parser0 ''t0'' (Some (KeyList [key_wrong1, key_secret])) None =
     Inr \<lparr> valid = True, payload = Some payload0, error = None, errors = None \<rparr>"
proof -
  have "jwtVerify lib0 ''t0'' (KeyMaterial (key key_wrong1))
     (jwtOptions_of (mergedOptions_of parser0 None)) =
     Inl (Error ''signature verification failed'')"
    by (simp add: lib0_def jwtVerify0_def key_wrong1_def)
  moreover have "verify_calls lib0 parser0 ''t0''
      (Some (KeyList [key_wrong1, key_secret])) None =
     [KeyMaterial (Str ''wrong-1''), KeyMaterial (Str ''secret'')]"
    by (simp add: verify_calls_def verifySignature_def keys_of_def parser0_def lib0_def
          jwtVerify0_def decodeJwt0_def key_wrong1_def key_secret_def)
  ultimately show ?thesis
    by (simp add: verify_parser0_wrong_then_secret)
qed

end
